theory Spec2Isabelle
  imports Main
begin

section \<open>Values, errors and the declared schemas\<close>

text \<open>
  Go's \<open>interface{}\<close> values that travel between the declared state and the wire:
  \<open>nil\<close>, strings, integers, booleans and lists.
\<close>

datatype val = VNil | VStr string | VInt int | VBool bool | VList "val list"

text \<open>
  The errors the two resources return. \<open>Wrapped p e\<close> is \<open>fmt.Errorf(p ++ ": %s", e)\<close>;
  \<open>NotFound\<close> is the API's 404 answer, \<open>TransportError\<close> any other failure of a call,
  \<open>OperationError\<close> the error carried by a finished operation.
\<close>

datatype error =
    NotFound
  | TransportError string
  | TimeoutError
  | OperationError string
  | SetError string
  | InvalidReference string
  | ConvertError string
  | NoPatternMatched string
  | Wrapped string error

datatype value_type = TypeString | TypeInt | TypeList | TypeSet

record schema =
  Name :: string
  Type :: value_type
  Required :: bool
  Optional :: bool
  Computed :: bool
  ForceNew :: bool
  Default :: "val option"
  Elem :: "value_type option"

definition field :: "string \<Rightarrow> value_type \<Rightarrow> schema" where
  "field n t = \<lparr>Name = n, Type = t, Required = False, Optional = False,
                 Computed = False, ForceNew = False, Default = None, Elem = None\<rparr>"

text \<open>\<open>resourceComputeRoute\<close>, the \<open>Schema\<close> map, in the order of the source.\<close>

definition resourceComputeRoute_Schema :: "schema list" where
  "resourceComputeRoute_Schema =
    [ (field ''name'' TypeString)\<lparr>Required := True, ForceNew := True\<rparr>,
      (field ''dest_range'' TypeString)\<lparr>Required := True, ForceNew := True\<rparr>,
      (field ''network'' TypeString)\<lparr>Required := True, ForceNew := True\<rparr>,
      (field ''next_hop_ip'' TypeString)\<lparr>Optional := True, ForceNew := True\<rparr>,
      (field ''next_hop_instance'' TypeString)\<lparr>Optional := True, ForceNew := True\<rparr>,
      (field ''next_hop_instance_zone'' TypeString)\<lparr>Optional := True, ForceNew := True\<rparr>,
      (field ''next_hop_gateway'' TypeString)\<lparr>Optional := True, ForceNew := True\<rparr>,
      (field ''next_hop_network'' TypeString)\<lparr>Optional := True, ForceNew := True\<rparr>,
      (field ''priority'' TypeInt)\<lparr>Required := True, ForceNew := True\<rparr>,
      (field ''tags'' TypeSet)\<lparr>Optional := True, Elem := Some TypeString\<rparr> ]"

text \<open>\<open>resourceComputeAddress\<close>, the \<open>Schema\<close> map, in the order of the source.\<close>

definition resourceComputeAddress_Schema :: "schema list" where
  "resourceComputeAddress_Schema =
    [ (field ''name'' TypeString)\<lparr>Required := True, ForceNew := True\<rparr>,
      (field ''address'' TypeString)\<lparr>Computed := True, Optional := True, ForceNew := True\<rparr>,
      (field ''address_type'' TypeString)
         \<lparr>Optional := True, ForceNew := True, Default := Some (VStr ''EXTERNAL'')\<rparr>,
      (field ''description'' TypeString)\<lparr>Optional := True, ForceNew := True\<rparr>,
      (field ''network_tier'' TypeString)\<lparr>Computed := True, Optional := True, ForceNew := True\<rparr>,
      (field ''region'' TypeString)\<lparr>Computed := True, Optional := True, ForceNew := True\<rparr>,
      (field ''subnetwork'' TypeString)\<lparr>Computed := True, Optional := True, ForceNew := True\<rparr>,
      (field ''creation_timestamp'' TypeString)\<lparr>Computed := True\<rparr>,
      (field ''users'' TypeList)\<lparr>Computed := True, Elem := Some TypeString\<rparr>,
      (field ''project'' TypeString)\<lparr>Optional := True, Computed := True, ForceNew := True\<rparr>,
      (field ''self_link'' TypeString)\<lparr>Computed := True\<rparr> ]"

fun schema_lookup :: "schema list \<Rightarrow> string \<Rightarrow> schema option" where
  "schema_lookup [] n = None"
| "schema_lookup (f # fs) n = (if Name f = n then Some f else schema_lookup fs n)"

section \<open>The declared state \<open>d\<close>\<close>

text \<open>
  \<open>*schema.ResourceData\<close>: the value that \<open>d.Get\<close> gives for every field (the
  declared value, or the default or zero value of a field that is not set), whether
  the field is set, and the identity. \<open>Get\<close>, \<open>GetOk\<close>, \<open>GetOkExists\<close>, \<open>Set\<close>,
  \<open>SetId\<close> and \<open>Id'\<close> (the method \<open>Id\<close>) are the accessors the two resources
  call; \<open>GetOk\<close> answers \<open>ok\<close> for a field that is set to a value other than the
  zero value, \<open>GetOkExists\<close> for a field that is set.
\<close>

record ResourceData =
  vals :: "string \<Rightarrow> val"
  isset :: "string \<Rightarrow> bool"
  Id' :: string

text \<open>The zero value of each kind of value, as Go's \<open>reflect\<close> reads it.\<close>

fun isZero :: "val \<Rightarrow> bool" where
  "isZero VNil = True"
| "isZero (VStr s) = (s = [])"
| "isZero (VInt i) = (i = 0)"
| "isZero (VBool b) = (\<not> b)"
| "isZero (VList xs) = (xs = [])"

definition Get :: "ResourceData \<Rightarrow> string \<Rightarrow> val" where
  "Get d k = vals d k"

definition GetOkExists :: "ResourceData \<Rightarrow> string \<Rightarrow> val \<times> bool" where
  "GetOkExists d k = (vals d k, isset d k)"

definition GetOk :: "ResourceData \<Rightarrow> string \<Rightarrow> val \<times> bool" where
  "GetOk d k = (vals d k, isset d k \<and> \<not> isZero (vals d k))"

definition SetId :: "ResourceData \<Rightarrow> string \<Rightarrow> ResourceData" where
  "SetId d i = d\<lparr>Id' := i\<rparr>"

text \<open>
  \<open>d.Set\<close> refuses a key the schema does not declare and a value whose shape does not
  fit the declared \<open>Type\<close>: a string field takes a string, an integer field an integer,
  a list or set field a list whose elements fit the type of \<open>Elem\<close>. \<open>nil\<close> is
  accepted everywhere.
\<close>

fun acceptsPrim :: "value_type \<Rightarrow> val \<Rightarrow> bool" where
  "acceptsPrim t VNil = True"
| "acceptsPrim TypeString (VStr s) = True"
| "acceptsPrim TypeInt (VInt i) = True"
| "acceptsPrim t v = False"

fun acceptsElems :: "value_type \<Rightarrow> val list \<Rightarrow> bool" where
  "acceptsElems t [] = True"
| "acceptsElems t (x # xs) = (acceptsPrim t x \<and> acceptsElems t xs)"

fun accepts :: "schema \<Rightarrow> val \<Rightarrow> bool" where
  "accepts f VNil = True"
| "accepts f (VList xs) =
     ((Type f = TypeList \<or> Type f = TypeSet)
      \<and> (case Elem f of None \<Rightarrow> False | Some t \<Rightarrow> acceptsElems t xs))"
| "accepts f v = ((Type f = TypeString \<or> Type f = TypeInt) \<and> acceptsPrim (Type f) v)"

text \<open>
  What \<open>d.Get\<close> reads back after \<open>d.Set\<close>: a field set to \<open>nil\<close> reads back as the
  zero value of its type, the empty string, zero or the empty list; so does a \<open>nil\<close>
  element of a list.
\<close>

fun zeroValue :: "value_type \<Rightarrow> val" where
  "zeroValue TypeString = VStr []"
| "zeroValue TypeInt = VInt 0"
| "zeroValue TypeList = VList []"
| "zeroValue TypeSet = VList []"

definition storedPrim :: "value_type \<Rightarrow> val \<Rightarrow> val" where
  "storedPrim t v = (if v = VNil then zeroValue t else v)"

fun stored :: "schema \<Rightarrow> val \<Rightarrow> val" where
  "stored f VNil = zeroValue (Type f)"
| "stored f (VList xs) =
     (case Elem f of None \<Rightarrow> VList xs | Some t \<Rightarrow> VList (map (storedPrim t) xs))"
| "stored f v = v"

definition Set :: "schema list \<Rightarrow> ResourceData \<Rightarrow> string \<Rightarrow> val \<Rightarrow> error + ResourceData" where
  "Set sch d k v =
     (case schema_lookup sch k of
        None \<Rightarrow> Inl (SetError k)
      | Some f \<Rightarrow>
          if accepts f v
          then Inr (d\<lparr>vals := (vals d)(k := stored f v), isset := (isset d)(k := True)\<rparr>)
          else Inl (SetError k))"

text \<open>
  A Go call either returns or panics (a failed type assertion \<open>v.(string)\<close>). A
  lifecycle function that returns gives its \<open>error\<close> (\<open>None\<close> is \<open>nil\<close>) and leaves
  \<open>d\<close> in a state.
\<close>

datatype 'a outcome = Panic | Done 'a

type_synonym result = "(error option \<times> ResourceData) outcome"

fun asString :: "val \<Rightarrow> string option" where
  "asString (VStr s) = Some s"
| "asString v = None"

fun asInt :: "val \<Rightarrow> int option" where
  "asInt (VInt i) = Some i"
| "asInt v = None"

fun asStrings :: "val list \<Rightarrow> string list option" where
  "asStrings [] = Some []"
| "asStrings (v # vs) =
     (case asString v of
        None \<Rightarrow> None
      | Some s \<Rightarrow> (case asStrings vs of None \<Rightarrow> None | Some ss \<Rightarrow> Some (s # ss)))"

record Config =
  Project :: string
  Region :: string

record Operation =
  Op_Name :: string
  Op_Error :: "string option"

section \<open>The route resource\<close>

record Route =
  Route_Name :: string
  Route_DestRange :: string
  Route_Network :: string
  Route_NextHopInstance :: string
  Route_NextHopIp :: string
  Route_NextHopNetwork :: string
  Route_NextHopGateway :: string
  Route_Priority :: int
  Route_Tags :: "string list"

text \<open>
  \<open>config.clientCompute\<close> as the route resource uses it: each call answers with a
  value or an error. \<open>WaitForState\<close> is the poll of \<open>OperationWaiter\<close>'s
  \<open>StateChangeConf\<close>: it returns the finished operation, whose \<open>Error\<close> may be set,
  or an error of its own when the deadline passes or a poll fails.
\<close>

record clientCompute =
  Networks_Get :: "string \<Rightarrow> string \<Rightarrow> error + string"
  Instances_Get :: "string \<Rightarrow> string \<Rightarrow> string \<Rightarrow> error + string"
  Routes_Insert :: "string \<Rightarrow> Route \<Rightarrow> error + Operation"
  Routes_Get :: "string \<Rightarrow> string \<Rightarrow> error + Route"
  Routes_Delete :: "string \<Rightarrow> string \<Rightarrow> error + Operation"
  WaitForState :: "Operation \<Rightarrow> error + Operation"

text \<open>\<open>if v, ok := d.GetOk(k); ok { x = v.(string) }\<close>, with \<open>x\<close> declared empty.\<close>

definition GetOk_string :: "ResourceData \<Rightarrow> string \<Rightarrow> string outcome" where
  "GetOk_string d k =
     (case GetOk d k of
        (v, ok) \<Rightarrow>
          if ok then (case asString v of None \<Rightarrow> Panic | Some s \<Rightarrow> Done s)
          else Done [])"

text \<open>\<open>resourceComputeRouteRead\<close>: fetch the route; nothing is written into \<open>d\<close>.\<close>

definition resourceComputeRouteRead :: "clientCompute \<Rightarrow> Config \<Rightarrow> ResourceData \<Rightarrow> result" where
  "resourceComputeRouteRead api config d =
     (case Routes_Get api (Project config) (Id' d) of
        Inl err \<Rightarrow> Done (Some (Wrapped ''Error reading route'' err), d)
      | Inr r \<Rightarrow> Done (None, d))"

text \<open>The wait of \<open>resourceComputeRouteCreate\<close>, after \<open>d.SetId(route.Name)\<close>.\<close>

definition routeCreate_wait :: "clientCompute \<Rightarrow> Config \<Rightarrow> ResourceData \<Rightarrow> Operation \<Rightarrow> result" where
  "routeCreate_wait api config d op =
     (case WaitForState api op of
        Inl err \<Rightarrow> Done (Some (Wrapped ''Error waiting for route to create'' err), d)
      | Inr op' \<Rightarrow>
          (case Op_Error op' of
             Some e \<Rightarrow> Done (Some (OperationError e), SetId d [])
           | None \<Rightarrow> resourceComputeRouteRead api config d))"

text \<open>The tags of \<open>resourceComputeRouteCreate\<close>: \<open>nil\<close> unless the set has elements.\<close>

definition routeCreate_tags :: "ResourceData \<Rightarrow> string list outcome" where
  "routeCreate_tags d =
     (case Get d ''tags'' of
        VList vs \<Rightarrow> (case asStrings vs of None \<Rightarrow> Panic | Some ss \<Rightarrow> Done ss)
      | v \<Rightarrow> Panic)"

text \<open>The \<open>compute.Route\<close> literal of \<open>resourceComputeRouteCreate\<close>.\<close>

definition routeCreate_route ::
  "ResourceData \<Rightarrow> string \<Rightarrow> string \<Rightarrow> string \<Rightarrow> string \<Rightarrow> string \<Rightarrow> string list \<Rightarrow> Route outcome" where
  "routeCreate_route d networkSelfLink nextHopInstance nextHopIp nextHopNetwork nextHopGateway tags =
     (case (asString (Get d ''name''), asString (Get d ''dest_range''), asInt (Get d ''priority'')) of
        (Some n, Some dr, Some p) \<Rightarrow>
          Done \<lparr>Route_Name = n, Route_DestRange = dr, Route_Network = networkSelfLink,
                Route_NextHopInstance = nextHopInstance, Route_NextHopIp = nextHopIp,
                Route_NextHopNetwork = nextHopNetwork, Route_NextHopGateway = nextHopGateway,
                Route_Priority = p, Route_Tags = tags\<rparr>
      | _ \<Rightarrow> Panic)"

text \<open>The instance lookup: only when \<open>next_hop_instance\<close> is set.\<close>

definition routeCreate_nextHopInstance ::
  "clientCompute \<Rightarrow> Config \<Rightarrow> ResourceData \<Rightarrow> (error + string) outcome" where
  "routeCreate_nextHopInstance api config d =
     (case GetOk d ''next_hop_instance'' of
        (v, ok) \<Rightarrow>
          if ok then
            (case (asString (Get d ''next_hop_instance_zone''), asString v) of
               (Some z, Some i) \<Rightarrow>
                 (case Instances_Get api (Project config) z i of
                    Inl err \<Rightarrow> Done (Inl (Wrapped ''Error reading instance'' err))
                  | Inr selfLink \<Rightarrow> Done (Inr selfLink))
             | _ \<Rightarrow> Panic)
          else Done (Inr []))"

text \<open>The network lookup: only when \<open>next_hop_network\<close> is set.\<close>

definition routeCreate_nextHopNetwork ::
  "clientCompute \<Rightarrow> Config \<Rightarrow> ResourceData \<Rightarrow> (error + string) outcome" where
  "routeCreate_nextHopNetwork api config d =
     (case GetOk d ''next_hop_network'' of
        (v, ok) \<Rightarrow>
          if ok then
            (case asString v of
               Some n \<Rightarrow>
                 (case Networks_Get api (Project config) n of
                    Inl err \<Rightarrow> Done (Inl (Wrapped ''Error reading network'' err))
                  | Inr selfLink \<Rightarrow> Done (Inr selfLink))
             | None \<Rightarrow> Panic)
          else Done (Inr []))"

text \<open>The insert of \<open>resourceComputeRouteCreate\<close>, the identity, and the wait.\<close>

definition routeCreate_insert :: "clientCompute \<Rightarrow> Config \<Rightarrow> ResourceData \<Rightarrow> Route \<Rightarrow> result" where
  "routeCreate_insert api config d route =
     (case Routes_Insert api (Project config) route of
        Inl err \<Rightarrow> Done (Some (Wrapped ''Error creating route'' err), d)
      | Inr op \<Rightarrow> routeCreate_wait api config (SetId d (Route_Name route)) op)"

definition resourceComputeRouteCreate :: "clientCompute \<Rightarrow> Config \<Rightarrow> ResourceData \<Rightarrow> result" where
  "resourceComputeRouteCreate api config d =
     (case asString (Get d ''network'') of
        None \<Rightarrow> Panic
      | Some n \<Rightarrow>
     (case Networks_Get api (Project config) n of
        Inl err \<Rightarrow> Done (Some (Wrapped ''Error reading network'' err), d)
      | Inr networkSelfLink \<Rightarrow>
     (case GetOk_string d ''next_hop_ip'' of
        Panic \<Rightarrow> Panic
      | Done nextHopIp \<Rightarrow>
     (case GetOk_string d ''next_hop_gateway'' of
        Panic \<Rightarrow> Panic
      | Done nextHopGateway \<Rightarrow>
     (case routeCreate_nextHopInstance api config d of
        Panic \<Rightarrow> Panic
      | Done (Inl err) \<Rightarrow> Done (Some err, d)
      | Done (Inr nextHopInstance) \<Rightarrow>
     (case routeCreate_nextHopNetwork api config d of
        Panic \<Rightarrow> Panic
      | Done (Inl err) \<Rightarrow> Done (Some err, d)
      | Done (Inr nextHopNetwork) \<Rightarrow>
     (case routeCreate_tags d of
        Panic \<Rightarrow> Panic
      | Done tags \<Rightarrow>
     (case routeCreate_route d networkSelfLink nextHopInstance nextHopIp nextHopNetwork
             nextHopGateway tags of
        Panic \<Rightarrow> Panic
      | Done route \<Rightarrow> routeCreate_insert api config d route))))))))"

text \<open>\<open>resourceComputeRouteDelete\<close>.\<close>

definition resourceComputeRouteDelete :: "clientCompute \<Rightarrow> Config \<Rightarrow> ResourceData \<Rightarrow> result" where
  "resourceComputeRouteDelete api config d =
     (case Routes_Delete api (Project config) (Id' d) of
        Inl err \<Rightarrow> Done (Some (Wrapped ''Error deleting route'' err), d)
      | Inr op \<Rightarrow>
          (case WaitForState api op of
             Inl err \<Rightarrow> Done (Some (Wrapped ''Error waiting for route to delete'' err), d)
           | Inr op' \<Rightarrow>
               (case Op_Error op' of
                  Some e \<Rightarrow> Done (Some (OperationError e), d)
                | None \<Rightarrow> Done (None, SetId d []))))"

section \<open>Helpers of the address resource\<close>

text \<open>
  A parsed reference to a regional or global object: \<open>RegionalFieldValue\<close> and
  \<open>GlobalFieldValue\<close>.
\<close>

record RegionalFieldValue =
  rfv_Project :: string
  rfv_Region :: string
  rfv_Name :: string
  rfv_resourceType :: string

record GlobalFieldValue =
  gfv_Project :: string
  gfv_Name :: string
  gfv_resourceType :: string

text \<open>
  The calls of the address resource whose answers come from outside it: the substitution
  of \<open>{{field}}\<close> placeholders, the transport, the default project and region, the
  decoding of an operation, the wait for it (\<open>None\<close> when it succeeded, an error when it failed or
  the deadline passed), the configured timeout in minutes and the two reference parsers
  (given the kind of object, the text, \<open>d\<close> and the configuration; the names of the
  context fields and the flag that an empty text is valid are constants of the calls).
\<close>

record helpers =
  replaceVars :: "ResourceData \<Rightarrow> Config \<Rightarrow> string \<Rightarrow> error + string"
  sendRequest :: "Config \<Rightarrow> string \<Rightarrow> string \<Rightarrow> (string \<rightharpoonup> val) option \<Rightarrow> error + (string \<rightharpoonup> val)"
  getProject :: "ResourceData \<Rightarrow> Config \<Rightarrow> error + string"
  getRegion :: "ResourceData \<Rightarrow> Config \<Rightarrow> error + string"
  Convert :: "(string \<rightharpoonup> val) \<Rightarrow> error + Operation"
  computeOperationWaitTime :: "Operation \<Rightarrow> string \<Rightarrow> string \<Rightarrow> int \<Rightarrow> error option"
  Timeout :: "ResourceData \<Rightarrow> string \<Rightarrow> int"
  parseRegionalFieldValue ::
    "string \<Rightarrow> string \<Rightarrow> ResourceData \<Rightarrow> Config \<Rightarrow> error + RegionalFieldValue"
  parseGlobalFieldValue ::
    "string \<Rightarrow> string \<Rightarrow> ResourceData \<Rightarrow> Config \<Rightarrow> error + GlobalFieldValue"

text \<open>\<open>res["k"]\<close> on a Go map: \<open>nil\<close> when the key is absent.\<close>

definition idx :: "(string \<rightharpoonup> val) \<Rightarrow> string \<Rightarrow> val" where
  "idx res k = (case res k of None \<Rightarrow> VNil | Some v \<Rightarrow> v)"

text \<open>
  Modelled from the spec: \<open>isEmptyValue\<close> is not under src/. Section 9: the test "is this
  value empty/unset" is a zero test per kind of value (string, list, set, number);
  \<open>nil\<close> is of none of these kinds.
\<close>

fun isEmptyValue :: "val \<Rightarrow> bool" where
  "isEmptyValue VNil = False"
| "isEmptyValue v = isZero v"

text \<open>
  Modelled from the spec: \<open>handleNotFoundError\<close> is not under src/. Section 7: a
  NotFoundError is converted to "resource absent" (no hard failure, the caller drops the
  identity); section 4.4: it is distinct from every other error, which is returned.
\<close>

definition handleNotFoundError :: "error \<Rightarrow> ResourceData \<Rightarrow> string \<Rightarrow> error option \<times> ResourceData" where
  "handleNotFoundError err d resource =
     (if err = NotFound then (None, SetId d [])
      else (Some (Wrapped (''Error reading '' @ resource) err), d))"

text \<open>
  Modelled from the spec: the \<open>RelativeLink\<close> methods are not under src/. Section 4.1: a
  reference resolves to a canonical relative link; for a regional object its shape is the
  one of the URL templates of the source, \<open>projects/{{project}}/regions/{{region}}/...\<close>,
  for a global object it is \<open>projects/{{project}}/global/...\<close>. An empty reference has
  the empty link.
\<close>

definition RegionalFieldValue_RelativeLink :: "RegionalFieldValue \<Rightarrow> string" where
  "RegionalFieldValue_RelativeLink f =
     (if rfv_Name f = [] then []
      else ''projects/'' @ rfv_Project f @ ''/regions/'' @ rfv_Region f @ ''/''
           @ rfv_resourceType f @ ''/'' @ rfv_Name f)"

definition GlobalFieldValue_RelativeLink :: "GlobalFieldValue \<Rightarrow> string" where
  "GlobalFieldValue_RelativeLink f =
     (if gfv_Name f = [] then []
      else ''projects/'' @ gfv_Project f @ ''/global/'' @ gfv_resourceType f @ ''/''
           @ gfv_Name f)"

text \<open>
  Modelled from the spec: \<open>ConvertSelfLinkToV1\<close> is not under src/. Glossary: a self-link
  is a fully-qualified URL; the function rewrites the API version of such a URL to
  \<open>v1\<close>, and a link that is not a fully-qualified URL of the API is returned as it is.
\<close>

definition apiBase :: string where
  "apiBase = ''https://www.googleapis.com/compute/''"

definition ConvertSelfLinkToV1 :: "string \<Rightarrow> string" where
  "ConvertSelfLinkToV1 link =
     (if take (length apiBase) link = apiBase
      then apiBase @ ''v1'' @ dropWhile (\<lambda>c. c \<noteq> CHR ''/'') (drop (length apiBase) link)
      else link)"

text \<open>
  Modelled from the spec: \<open>NameFromSelfLinkStateFunc\<close> is not under src/. Section 4.1:
  flatten canonicalizes a self-link into its short name, the last segment of the path.
  The argument must be a string.
\<close>

definition GetResourceNameFromSelfLink :: "string \<Rightarrow> string" where
  "GetResourceNameFromSelfLink link = rev (takeWhile (\<lambda>c. c \<noteq> CHR ''/'') (rev link))"

definition NameFromSelfLinkStateFunc :: "val \<Rightarrow> val outcome" where
  "NameFromSelfLinkStateFunc v =
     (case asString v of None \<Rightarrow> Panic | Some s \<Rightarrow> Done (VStr (GetResourceNameFromSelfLink s)))"

text \<open>The segments of a path: the text between the separators.\<close>

fun splitOn :: "char \<Rightarrow> string \<Rightarrow> string list" where
  "splitOn c [] = [[]]"
| "splitOn c (x # xs) =
     (if x = c then [] # splitOn c xs
      else (case splitOn c xs of [] \<Rightarrow> [[x]] | y # ys \<Rightarrow> (x # y) # ys))"

text \<open>
  The shapes of a reference that carry their context, read from the last segments of
  the text (given in reverse): \<open>projects/P/regions/R/T/N\<close> and \<open>regions/R/T/N\<close> for
  a regional object of kind \<open>T\<close>, \<open>projects/P/global/T/N\<close> for a global one.
\<close>

fun regionalFull :: "string \<Rightarrow> string list \<Rightarrow> (string \<times> string) option" where
  "regionalFull t (n # t' # r # rg # p # pj # rest) =
     (if pj = ''projects'' \<and> rg = ''regions'' \<and> t' = t \<and> p \<noteq> [] \<and> r \<noteq> [] \<and> n \<noteq> []
      then Some (p, r) else None)"
| "regionalFull t segs = None"

fun regionalPartial :: "string \<Rightarrow> string list \<Rightarrow> string option" where
  "regionalPartial t (n # t' # r # rg # rest) =
     (if rg = ''regions'' \<and> t' = t \<and> r \<noteq> [] \<and> n \<noteq> [] then Some r else None)"
| "regionalPartial t segs = None"

fun globalFull :: "string \<Rightarrow> string list \<Rightarrow> string option" where
  "globalFull t (n # t' # g # p # pj # rest) =
     (if pj = ''projects'' \<and> g = ''global'' \<and> t' = t \<and> p \<noteq> [] \<and> n \<noteq> []
      then Some p else None)"
| "globalFull t segs = None"

text \<open>
  Modelled from the spec: \<open>parseRegionalFieldValue\<close> and \<open>parseGlobalFieldValue\<close> are
  not under src/. Section 4.1: a short name, a full URL or a partial path resolves to
  the object it names; the project and the region come from the text when it carries
  them and from the context otherwise, and the resolution fails when the context has
  none. The name is the last segment of the text. An empty text is valid in the calls
  of the source and names nothing.
\<close>

definition parseRegionalFieldValue0 ::
  "(ResourceData \<Rightarrow> Config \<Rightarrow> error + string) \<Rightarrow> (ResourceData \<Rightarrow> Config \<Rightarrow> error + string)
   \<Rightarrow> string \<Rightarrow> string \<Rightarrow> ResourceData \<Rightarrow> Config \<Rightarrow> error + RegionalFieldValue" where
  "parseRegionalFieldValue0 gp gr t s d config =
     (if s = []
      then Inr \<lparr>rfv_Project = [], rfv_Region = [], rfv_Name = [], rfv_resourceType = t\<rparr>
      else
        (case regionalFull t (rev (splitOn (CHR ''/'') s)) of
           Some (p, r) \<Rightarrow>
             Inr \<lparr>rfv_Project = p, rfv_Region = r,
                  rfv_Name = GetResourceNameFromSelfLink s, rfv_resourceType = t\<rparr>
         | None \<Rightarrow>
        (case gp d config of
           Inl err \<Rightarrow> Inl err
         | Inr project \<Rightarrow>
        (case regionalPartial t (rev (splitOn (CHR ''/'') s)) of
           Some r \<Rightarrow>
             Inr \<lparr>rfv_Project = project, rfv_Region = r,
                  rfv_Name = GetResourceNameFromSelfLink s, rfv_resourceType = t\<rparr>
         | None \<Rightarrow>
        (case gr d config of
           Inl err \<Rightarrow> Inl err
         | Inr region \<Rightarrow>
             Inr \<lparr>rfv_Project = project, rfv_Region = region,
                  rfv_Name = GetResourceNameFromSelfLink s, rfv_resourceType = t\<rparr>)))))"

definition parseGlobalFieldValue0 ::
  "(ResourceData \<Rightarrow> Config \<Rightarrow> error + string)
   \<Rightarrow> string \<Rightarrow> string \<Rightarrow> ResourceData \<Rightarrow> Config \<Rightarrow> error + GlobalFieldValue" where
  "parseGlobalFieldValue0 gp t s d config =
     (if s = []
      then Inr \<lparr>gfv_Project = [], gfv_Name = [], gfv_resourceType = t\<rparr>
      else
        (case globalFull t (rev (splitOn (CHR ''/'') s)) of
           Some p \<Rightarrow>
             Inr \<lparr>gfv_Project = p, gfv_Name = GetResourceNameFromSelfLink s,
                  gfv_resourceType = t\<rparr>
         | None \<Rightarrow>
        (case gp d config of
           Inl err \<Rightarrow> Inl err
         | Inr project \<Rightarrow>
             Inr \<lparr>gfv_Project = project, gfv_Name = GetResourceNameFromSelfLink s,
                  gfv_resourceType = t\<rparr>)))"


section \<open>The field codec of the address resource\<close>

definition flattenComputeAddressAddress :: "val \<Rightarrow> val" where
  "flattenComputeAddressAddress v = v"

definition flattenComputeAddressAddressType :: "val \<Rightarrow> val outcome" where
  "flattenComputeAddressAddressType v =
     (if v = VNil then Done (VStr ''EXTERNAL'')
      else (case asString v of
              None \<Rightarrow> Panic
            | Some s \<Rightarrow> if s = [] then Done (VStr ''EXTERNAL'') else Done v))"

definition flattenComputeAddressCreationTimestamp :: "val \<Rightarrow> val" where
  "flattenComputeAddressCreationTimestamp v = v"

definition flattenComputeAddressDescription :: "val \<Rightarrow> val" where
  "flattenComputeAddressDescription v = v"

definition flattenComputeAddressName :: "val \<Rightarrow> val" where
  "flattenComputeAddressName v = v"

definition flattenComputeAddressNetworkTier :: "val \<Rightarrow> val" where
  "flattenComputeAddressNetworkTier v = v"

definition flattenComputeAddressSubnetwork :: "val \<Rightarrow> val outcome" where
  "flattenComputeAddressSubnetwork v =
     (if v = VNil then Done v
      else (case asString v of
              None \<Rightarrow> Panic
            | Some s \<Rightarrow> Done (VStr (ConvertSelfLinkToV1 s))))"

definition flattenComputeAddressUsers :: "val \<Rightarrow> val" where
  "flattenComputeAddressUsers v = v"

definition flattenComputeAddressRegion :: "val \<Rightarrow> val outcome" where
  "flattenComputeAddressRegion v =
     (if v = VNil then Done v else NameFromSelfLinkStateFunc v)"

text \<open>The expanders return \<open>(interface{}, error)\<close>; two of them assert a string first.\<close>

definition expandComputeAddressAddress :: "val \<Rightarrow> ResourceData \<Rightarrow> Config \<Rightarrow> (error + val) outcome" where
  "expandComputeAddressAddress v d config = Done (Inr v)"

definition expandComputeAddressAddressType :: "val \<Rightarrow> ResourceData \<Rightarrow> Config \<Rightarrow> (error + val) outcome" where
  "expandComputeAddressAddressType v d config = Done (Inr v)"

definition expandComputeAddressDescription :: "val \<Rightarrow> ResourceData \<Rightarrow> Config \<Rightarrow> (error + val) outcome" where
  "expandComputeAddressDescription v d config = Done (Inr v)"

definition expandComputeAddressName :: "val \<Rightarrow> ResourceData \<Rightarrow> Config \<Rightarrow> (error + val) outcome" where
  "expandComputeAddressName v d config = Done (Inr v)"

definition expandComputeAddressNetworkTier :: "val \<Rightarrow> ResourceData \<Rightarrow> Config \<Rightarrow> (error + val) outcome" where
  "expandComputeAddressNetworkTier v d config = Done (Inr v)"

definition expandComputeAddressSubnetwork ::
  "helpers \<Rightarrow> val \<Rightarrow> ResourceData \<Rightarrow> Config \<Rightarrow> (error + val) outcome" where
  "expandComputeAddressSubnetwork h v d config =
     (case asString v of
        None \<Rightarrow> Panic
      | Some s \<Rightarrow>
          (case parseRegionalFieldValue h ''subnetworks'' s d config of
             Inl err \<Rightarrow> Done (Inl (Wrapped ''Invalid value for subnetwork'' err))
           | Inr f \<Rightarrow> Done (Inr (VStr (RegionalFieldValue_RelativeLink f)))))"

definition expandComputeAddressRegion ::
  "helpers \<Rightarrow> val \<Rightarrow> ResourceData \<Rightarrow> Config \<Rightarrow> (error + val) outcome" where
  "expandComputeAddressRegion h v d config =
     (case asString v of
        None \<Rightarrow> Panic
      | Some s \<Rightarrow>
          (case parseGlobalFieldValue h ''regions'' s d config of
             Inl err \<Rightarrow> Done (Inl (Wrapped ''Invalid value for region'' err))
           | Inr f \<Rightarrow> Done (Inr (VStr (GlobalFieldValue_RelativeLink f)))))"

section \<open>The address resource\<close>

text \<open>
  One property of the payload of \<open>resourceComputeAddressCreate\<close>:
  \<open>if v, ok := d.GetOkExists(k); !isEmptyValue(prop) && (ok || !reflect.DeepEqual(v, prop))
  { obj[wk] = prop }\<close>.
\<close>

definition addProp ::
  "ResourceData \<Rightarrow> string \<Rightarrow> string \<Rightarrow> val \<Rightarrow> (string \<rightharpoonup> val) \<Rightarrow> (string \<rightharpoonup> val)" where
  "addProp d k wk prop obj =
     (case GetOkExists d k of
        (v, ok) \<Rightarrow>
          if \<not> isEmptyValue prop \<and> (ok \<or> v \<noteq> prop) then obj(wk \<mapsto> prop) else obj)"

text \<open>
  The first part of \<open>resourceComputeAddressCreate\<close>: the payload \<open>obj\<close>, built field by
  field in the order of the source; an expander's error ends the function.
\<close>

definition resourceComputeAddressCreate_obj ::
  "helpers \<Rightarrow> Config \<Rightarrow> ResourceData \<Rightarrow> (error + (string \<rightharpoonup> val)) outcome" where
  "resourceComputeAddressCreate_obj h config d =
     (case expandComputeAddressAddress (Get d ''address'') d config of
        Panic \<Rightarrow> Panic | Done (Inl err) \<Rightarrow> Done (Inl err)
      | Done (Inr addressProp) \<Rightarrow>
     (case expandComputeAddressAddressType (Get d ''address_type'') d config of
        Panic \<Rightarrow> Panic | Done (Inl err) \<Rightarrow> Done (Inl err)
      | Done (Inr addressTypeProp) \<Rightarrow>
     (case expandComputeAddressDescription (Get d ''description'') d config of
        Panic \<Rightarrow> Panic | Done (Inl err) \<Rightarrow> Done (Inl err)
      | Done (Inr descriptionProp) \<Rightarrow>
     (case expandComputeAddressName (Get d ''name'') d config of
        Panic \<Rightarrow> Panic | Done (Inl err) \<Rightarrow> Done (Inl err)
      | Done (Inr nameProp) \<Rightarrow>
     (case expandComputeAddressNetworkTier (Get d ''network_tier'') d config of
        Panic \<Rightarrow> Panic | Done (Inl err) \<Rightarrow> Done (Inl err)
      | Done (Inr networkTierProp) \<Rightarrow>
     (case expandComputeAddressSubnetwork h (Get d ''subnetwork'') d config of
        Panic \<Rightarrow> Panic | Done (Inl err) \<Rightarrow> Done (Inl err)
      | Done (Inr subnetworkProp) \<Rightarrow>
     (case expandComputeAddressRegion h (Get d ''region'') d config of
        Panic \<Rightarrow> Panic | Done (Inl err) \<Rightarrow> Done (Inl err)
      | Done (Inr regionProp) \<Rightarrow>
          Done (Inr
            (addProp d ''region'' ''region'' regionProp
            (addProp d ''subnetwork'' ''subnetwork'' subnetworkProp
            (addProp d ''network_tier'' ''networkTier'' networkTierProp
            (addProp d ''name'' ''name'' nameProp
            (addProp d ''description'' ''description'' descriptionProp
            (addProp d ''address_type'' ''addressType'' addressTypeProp
            (addProp d ''address'' ''address'' addressProp Map.empty)))))))))))))))"

text \<open>
  The values \<open>resourceComputeAddressRead\<close> sets from the response, in the order of the
  source: the key of \<open>d\<close> and the flattened wire field. The last one asserts that
  \<open>res["selfLink"]\<close> is a string.
\<close>

definition addressRead_fields :: "(string \<rightharpoonup> val) \<Rightarrow> (string \<times> val outcome) list" where
  "addressRead_fields res =
     [ (''address'', Done (flattenComputeAddressAddress (idx res ''address''))),
       (''address_type'', flattenComputeAddressAddressType (idx res ''addressType'')),
       (''creation_timestamp'',
          Done (flattenComputeAddressCreationTimestamp (idx res ''creationTimestamp''))),
       (''description'', Done (flattenComputeAddressDescription (idx res ''description''))),
       (''name'', Done (flattenComputeAddressName (idx res ''name''))),
       (''network_tier'', Done (flattenComputeAddressNetworkTier (idx res ''networkTier''))),
       (''subnetwork'', flattenComputeAddressSubnetwork (idx res ''subnetwork'')),
       (''users'', Done (flattenComputeAddressUsers (idx res ''users''))),
       (''region'', flattenComputeAddressRegion (idx res ''region'')),
       (''self_link'',
          (case asString (idx res ''selfLink'') of
             None \<Rightarrow> Panic
           | Some s \<Rightarrow> Done (VStr (ConvertSelfLinkToV1 s)))) ]"

text \<open>
  The chain \<open>if err := d.Set(k, v); err != nil { return fmt.Errorf(...) }\<close>: the value is
  computed, then set; the first panic or error ends the function. \<open>Inl\<close> is the early
  return with its error and the state at that point.
\<close>

fun setAll ::
  "ResourceData \<Rightarrow> (string \<times> val outcome) list \<Rightarrow> ((error \<times> ResourceData) + ResourceData) outcome" where
  "setAll d [] = Done (Inr d)"
| "setAll d ((k, Panic) # rest) = Panic"
| "setAll d ((k, Done v) # rest) =
     (case Set resourceComputeAddress_Schema d k v of
        Inl err \<Rightarrow> Done (Inl (Wrapped ''Error reading Address'' err, d))
      | Inr d' \<Rightarrow> setAll d' rest)"

definition addressUrl :: string where
  "addressUrl = ''https://www.googleapis.com/compute/v1/projects/{{project}}/regions/{{region}}/addresses/{{name}}''"

definition resourceComputeAddressRead :: "helpers \<Rightarrow> Config \<Rightarrow> ResourceData \<Rightarrow> result" where
  "resourceComputeAddressRead h config d =
     (case replaceVars h d config addressUrl of
        Inl err \<Rightarrow> Done (Some err, d)
      | Inr url \<Rightarrow>
     (case sendRequest h config ''GET'' url None of
        Inl err \<Rightarrow> Done (handleNotFoundError err d (''ComputeAddress '' @ Id' d))
      | Inr res \<Rightarrow>
     (case setAll d (addressRead_fields res) of
        Panic \<Rightarrow> Panic
      | Done (Inl (err, d')) \<Rightarrow> Done (Some err, d')
      | Done (Inr d') \<Rightarrow>
     (case getProject h d' config of
        Inl err \<Rightarrow> Done (Some err, d')
      | Inr project \<Rightarrow>
     (case Set resourceComputeAddress_Schema d' ''project'' (VStr project) of
        Inl err \<Rightarrow> Done (Some (Wrapped ''Error reading Address'' err), d')
      | Inr d'' \<Rightarrow> Done (None, d''))))))"

text \<open>
  The second part of \<open>resourceComputeAddressCreate\<close>: the request, the identity, the
  wait and the final read.
\<close>

definition resourceComputeAddressCreate_send ::
  "helpers \<Rightarrow> Config \<Rightarrow> ResourceData \<Rightarrow> (string \<rightharpoonup> val) \<Rightarrow> result" where
  "resourceComputeAddressCreate_send h config d obj =
     (case replaceVars h d config
             ''https://www.googleapis.com/compute/v1/projects/{{project}}/regions/{{region}}/addresses'' of
        Inl err \<Rightarrow> Done (Some err, d)
      | Inr url \<Rightarrow>
     (case sendRequest h config ''POST'' url (Some obj) of
        Inl err \<Rightarrow> Done (Some (Wrapped ''Error creating Address'' err), d)
      | Inr res \<Rightarrow>
     (case replaceVars h d config ''{{project}}/{{region}}/{{name}}'' of
        Inl err \<Rightarrow> Done (Some (Wrapped ''Error constructing id'' err), d)
      | Inr i \<Rightarrow>
     (let d1 = SetId d i in
      case getProject h d1 config of
        Inl err \<Rightarrow> Done (Some err, d1)
      | Inr project \<Rightarrow>
     (case Convert h res of
        Inl err \<Rightarrow> Done (Some err, d1)
      | Inr op \<Rightarrow>
     (case computeOperationWaitTime h op project ''Creating Address'' (Timeout h d1 ''create'') of
        Some waitErr \<Rightarrow>
          Done (Some (Wrapped ''Error waiting to create Address'' waitErr), SetId d1 [])
      | None \<Rightarrow> resourceComputeAddressRead h config d1))))))"

definition resourceComputeAddressCreate :: "helpers \<Rightarrow> Config \<Rightarrow> ResourceData \<Rightarrow> result" where
  "resourceComputeAddressCreate h config d =
     (case resourceComputeAddressCreate_obj h config d of
        Panic \<Rightarrow> Panic
      | Done (Inl err) \<Rightarrow> Done (Some err, d)
      | Done (Inr obj) \<Rightarrow> resourceComputeAddressCreate_send h config d obj)"

definition resourceComputeAddressDelete :: "helpers \<Rightarrow> Config \<Rightarrow> ResourceData \<Rightarrow> result" where
  "resourceComputeAddressDelete h config d =
     (case replaceVars h d config addressUrl of
        Inl err \<Rightarrow> Done (Some err, d)
      | Inr url \<Rightarrow>
     (case sendRequest h config ''DELETE'' url None of
        Inl err \<Rightarrow> Done (handleNotFoundError err d ''Address'')
      | Inr res \<Rightarrow>
     (case getProject h d config of
        Inl err \<Rightarrow> Done (Some err, d)
      | Inr project \<Rightarrow>
     (case Convert h res of
        Inl err \<Rightarrow> Done (Some err, d)
      | Inr op \<Rightarrow>
     (case computeOperationWaitTime h op project ''Deleting Address'' (Timeout h d ''delete'') of
        Some err \<Rightarrow> Done (Some err, d)
      | None \<Rightarrow> Done (None, d))))))"

section \<open>Import\<close>

text \<open>
  An import pattern of the source is a sequence of literal text and named groups
  \<open>(?P<name>[^/]+)\<close>: \<open>Lit\<close> and \<open>Cap\<close>.
\<close>

datatype seg = Lit string | Cap string

text \<open>
  The three patterns of \<open>resourceComputeAddressImport\<close>, in the order of the source:
  \<open>projects/(?P<project>[^/]+)/regions/(?P<region>[^/]+)/addresses/(?P<name>[^/]+)\<close>,
  \<open>(?P<project>[^/]+)/(?P<region>[^/]+)/(?P<name>[^/]+)\<close> and \<open>(?P<name>[^/]+)\<close>.
\<close>

definition addressImportPatterns :: "seg list list" where
  "addressImportPatterns =
     [ [Lit ''projects/'', Cap ''project'', Lit ''/regions/'', Cap ''region'',
        Lit ''/addresses/'', Cap ''name''],
       [Cap ''project'', Lit ''/'', Cap ''region'', Lit ''/'', Cap ''name''],
       [Cap ''name''] ]"

fun first_some :: "'a option list \<Rightarrow> 'a option" where
  "first_some [] = None"
| "first_some (None # xs) = first_some xs"
| "first_some (Some x # xs) = Some x"

text \<open>
  Modelled from the spec: \<open>parseImportId\<close> and its matching are not under src/. Section
  4.3 of the spec speaks of a whole-string match; the patterns of the source (line 297)
  are regular expressions without anchors, and Go's \<open>regexp\<close> finds such a pattern
  anywhere in the text. \<open>match_gen\<close> matches a pattern at the start of a text: with
  \<open>whole\<close> the pattern must use up the text, without it the rest of the text is
  free. A group takes a non-empty run of characters other than \<open>/\<close>, the longest
  one that lets the rest match; the result lists the groups with their text.
\<close>

fun match_gen :: "bool \<Rightarrow> seg list \<Rightarrow> string \<Rightarrow> (string \<times> string) list option" where
  "match_gen whole [] s = (if whole then (if s = [] then Some [] else None) else Some [])"
| "match_gen whole (Lit l # r) s =
     (if take (length l) s = l then match_gen whole r (drop (length l) s) else None)"
| "match_gen whole (Cap n # r) s =
     first_some
       (map (\<lambda>k. case match_gen whole r (drop k s) of
                    None \<Rightarrow> None
                  | Some m \<Rightarrow> Some ((n, take k s) # m))
            (rev [1..<Suc (length (takeWhile (\<lambda>c. c \<noteq> CHR ''/'') s))]))"

text \<open>The whole-string match of section 4.3 of the spec.\<close>

definition match_whole :: "seg list \<Rightarrow> string \<Rightarrow> (string \<times> string) list option" where
  "match_whole p s = match_gen True p s"

text \<open>
  The match of a pattern without anchors, as the source passes them: the leftmost place
  of the text where the pattern matches.
\<close>

fun search :: "seg list \<Rightarrow> string \<Rightarrow> (string \<times> string) list option" where
  "search p [] = match_gen False p []"
| "search p (c # s) =
     (case match_gen False p (c # s) of Some m \<Rightarrow> Some m | None \<Rightarrow> search p s)"

text \<open>
  Modelled from the spec: the ambient defaults of section 4.3, the configured default
  project and region when they are not empty.
\<close>

definition ambientDefaults :: "Config \<Rightarrow> (string \<times> string) list" where
  "ambientDefaults config =
     (if Project config = [] then [] else [(''project'', Project config)])
     @ (if Region config = [] then [] else [(''region'', Region config)])"

text \<open>
  Modelled from the spec: \<open>resolve(importId, patterns, ambientDefaults)\<close> of section 4.3.
  The patterns are tried in the order of their declaration and the first one that
  matches wins; a field the matched pattern does not name falls back to the ambient
  defaults; an id that no pattern matches is a \<open>NoPatternMatched\<close> error.
\<close>

fun resolve :: "string \<Rightarrow> seg list list \<Rightarrow> (string \<times> string) list \<Rightarrow> error + (string \<times> string) list" where
  "resolve i [] defaults = Inl (NoPatternMatched i)"
| "resolve i (p # ps) defaults =
     (case search p i of
        Some m \<Rightarrow> Inr (m @ filter (\<lambda>(k, v). k \<notin> set (map fst m)) defaults)
      | None \<Rightarrow> resolve i ps defaults)"

text \<open>The resolved fields are written into \<open>d\<close>; a refused \<open>Set\<close> is returned.\<close>

fun seedFields :: "ResourceData \<Rightarrow> (string \<times> string) list \<Rightarrow> error option \<times> ResourceData" where
  "seedFields d [] = (None, d)"
| "seedFields d ((k, v) # rest) =
     (case Set resourceComputeAddress_Schema d k (VStr v) of
        Inl err \<Rightarrow> (Some err, d)
      | Inr d' \<Rightarrow> seedFields d' rest)"

text \<open>
  Modelled from the spec: \<open>parseImportId\<close> is not under src/. It resolves the import id,
  which is the identity of \<open>d\<close>, and seeds the fields of \<open>d\<close>; it returns the error of
  section 4.3 when no pattern matches.
\<close>

definition parseImportId :: "seg list list \<Rightarrow> ResourceData \<Rightarrow> Config \<Rightarrow> error option \<times> ResourceData" where
  "parseImportId patterns d config =
     (case resolve (Id' d) patterns (ambientDefaults config) of
        Inl err \<Rightarrow> (Some err, d)
      | Inr fieldMap \<Rightarrow> seedFields d fieldMap)"

text \<open>
  \<open>resourceComputeAddressImport\<close>: the call of \<open>parseImportId\<close> is a statement, its
  result is not read; then the identity is built.
\<close>

definition resourceComputeAddressImport ::
  "helpers \<Rightarrow> Config \<Rightarrow> ResourceData \<Rightarrow> error + ResourceData list" where
  "resourceComputeAddressImport h config d =
     (case parseImportId addressImportPatterns d config of
        (ignored, d1) \<Rightarrow>
          (case replaceVars h d1 config ''{{project}}/{{region}}/{{name}}'' of
             Inl err \<Rightarrow> Inl (Wrapped ''Error constructing id'' err)
           | Inr i \<Rightarrow> Inr [SetId d1 i]))"

section \<open>The operation poller\<close>

text \<open>The terminal states of the poller of section 4.2 of the spec.\<close>

datatype poll_state = Succeeded | Failed string | TimedOut

text \<open>
  Modelled from the spec: \<open>OperationWaiter\<close> and its \<open>WaitForState\<close> are not under
  src/. The route resource reads a failure from \<open>op.Error\<close> of the operation that
  \<open>WaitForState\<close> returns without error, and takes the absence of both errors as
  success; a deadline that passes is the error of \<open>WaitForState\<close> itself.
\<close>

fun WaitForState_of :: "poll_state \<Rightarrow> Operation \<Rightarrow> error + Operation" where
  "WaitForState_of Succeeded op = Inr (op\<lparr>Op_Error := None\<rparr>)"
| "WaitForState_of (Failed e) op = Inr (op\<lparr>Op_Error := Some e\<rparr>)"
| "WaitForState_of TimedOut op = Inl TimeoutError"

text \<open>
  Modelled from the spec: \<open>computeOperationWaitTime\<close> is not under src/. It returns no
  error when the operation succeeded, the operation's error when it failed and a timeout
  error when the deadline passed.
\<close>

fun computeOperationWaitTime_of :: "poll_state \<Rightarrow> error option" where
  "computeOperationWaitTime_of Succeeded = None"
| "computeOperationWaitTime_of (Failed e) = Some (OperationError e)"
| "computeOperationWaitTime_of TimedOut = Some TimeoutError"

section \<open>The codec by field and the canonical form\<close>

text \<open>
  The declared fields that \<open>resourceComputeAddressCreate\<close> sends, each with its key on
  the wire, and the expander the function calls for each.
\<close>

definition addressWireNames :: "(string \<times> string) list" where
  "addressWireNames =
     [ (''address'', ''address''), (''address_type'', ''addressType''),
       (''description'', ''description''), (''name'', ''name''),
       (''network_tier'', ''networkTier''), (''subnetwork'', ''subnetwork''),
       (''region'', ''region'') ]"

definition addressExpand ::
  "helpers \<Rightarrow> string \<Rightarrow> val \<Rightarrow> ResourceData \<Rightarrow> Config \<Rightarrow> (error + val) outcome" where
  "addressExpand h k v d config =
     (if k = ''address'' then expandComputeAddressAddress v d config
      else if k = ''address_type'' then expandComputeAddressAddressType v d config
      else if k = ''description'' then expandComputeAddressDescription v d config
      else if k = ''name'' then expandComputeAddressName v d config
      else if k = ''network_tier'' then expandComputeAddressNetworkTier v d config
      else if k = ''subnetwork'' then expandComputeAddressSubnetwork h v d config
      else expandComputeAddressRegion h v d config)"





section \<open>Concrete inputs\<close>

text \<open>A configuration, a declared route and a declared address.\<close>

definition cfg0 :: Config where
  "cfg0 = \<lparr>Project = ''p1'', Region = ''r1''\<rparr>"

definition route_d0 :: ResourceData where
  "route_d0 =
     \<lparr>vals = (\<lambda>k. if k = ''name'' then VStr ''route1''
                   else if k = ''dest_range'' then VStr ''10.0.0.0/24''
                   else if k = ''network'' then VStr ''default''
                   else if k = ''priority'' then VInt 1000
                   else if k = ''tags'' then VList []
                   else VStr []),
      isset = (\<lambda>k. k \<in> set [''name'', ''dest_range'', ''network'', ''priority'']),
      Id' = []\<rparr>"

text \<open>
  A compute client whose lookups and requests succeed and whose poll ends in the given
  state; and one whose route is already gone, so that get and delete answer NotFound.
\<close>

definition api_present :: "poll_state \<Rightarrow> clientCompute" where
  "api_present st =
     \<lparr>Networks_Get = (\<lambda>p n. Inr (''projects/'' @ p @ ''/global/networks/'' @ n)),
      Instances_Get = (\<lambda>p z i. Inr (''projects/'' @ p @ ''/zones/'' @ z @ ''/instances/'' @ i)),
      Routes_Insert = (\<lambda>p r. Inr \<lparr>Op_Name = ''op-insert'', Op_Error = None\<rparr>),
      Routes_Get = (\<lambda>p i. Inr \<lparr>Route_Name = i, Route_DestRange = ''192.168.0.0/16'',
                                Route_Network = ''projects/p1/global/networks/default'',
                                Route_NextHopInstance = [], Route_NextHopIp = [],
                                Route_NextHopNetwork = [], Route_NextHopGateway = [],
                                Route_Priority = 7, Route_Tags = []\<rparr>),
      Routes_Delete = (\<lambda>p i. Inr \<lparr>Op_Name = ''op-delete'', Op_Error = None\<rparr>),
      WaitForState = WaitForState_of st\<rparr>"

definition api_gone :: clientCompute where
  "api_gone = (api_present Succeeded)
     \<lparr>Routes_Get := (\<lambda>p i. Inl NotFound), Routes_Delete := (\<lambda>p i. Inl NotFound)\<rparr>"

text \<open>
  A declared address, and helpers whose calls succeed: the placeholders are filled
  from \<open>d\<close> or else from the configuration, the request answers with the given
  response and the wait ends in the given state; and helpers whose address is already
  gone, so that every request answers NotFound.
\<close>

definition addr_d0 :: ResourceData where
  "addr_d0 =
     \<lparr>vals = (\<lambda>k. if k = ''name'' then VStr ''addr1''
                   else if k = ''address_type'' then VStr ''INTERNAL''
                   else if k = ''users'' then VList []
                   else VStr []),
      isset = (\<lambda>k. k \<in> set [''name'', ''address_type'']),
      Id' = ''p1/r1/addr1''\<rparr>"

definition fieldOr :: "ResourceData \<Rightarrow> string \<Rightarrow> string \<Rightarrow> string" where
  "fieldOr d k dflt = (case Get d k of VStr s \<Rightarrow> if s = [] then dflt else s | v \<Rightarrow> dflt)"

definition replaceVars0 :: "ResourceData \<Rightarrow> Config \<Rightarrow> string \<Rightarrow> error + string" where
  "replaceVars0 d c t =
     (let p = fieldOr d ''project'' (Project c);
          r = fieldOr d ''region'' (Region c);
          n = fieldOr d ''name'' []
      in if t = ''{{project}}/{{region}}/{{name}}'' then Inr (p @ ''/'' @ r @ ''/'' @ n)
         else if t = addressUrl
         then Inr (''https://www.googleapis.com/compute/v1/projects/'' @ p @ ''/regions/'' @ r
                   @ ''/addresses/'' @ n)
         else Inr (''https://www.googleapis.com/compute/v1/projects/'' @ p @ ''/regions/'' @ r
                   @ ''/addresses''))"

definition h_present :: "poll_state \<Rightarrow> (string \<rightharpoonup> val) \<Rightarrow> helpers" where
  "h_present st res =
     \<lparr>replaceVars = replaceVars0,
      sendRequest = (\<lambda>c m u b. Inr res),
      getProject = (\<lambda>d c. Inr (Project c)),
      getRegion = (\<lambda>d c. Inr (Region c)),
      Convert = (\<lambda>r. Inr \<lparr>Op_Name = ''op-address'', Op_Error = None\<rparr>),
      computeOperationWaitTime = (\<lambda>op p a t. computeOperationWaitTime_of st),
      Timeout = (\<lambda>d k. 4),
      parseRegionalFieldValue =
        parseRegionalFieldValue0 (\<lambda>d c. Inr (Project c)) (\<lambda>d c. Inr (Region c)),
      parseGlobalFieldValue = parseGlobalFieldValue0 (\<lambda>d c. Inr (Project c))\<rparr>"

definition h_gone :: helpers where
  "h_gone = (h_present Succeeded Map.empty)\<lparr>sendRequest := (\<lambda>c m u b. Inl NotFound)\<rparr>"

text \<open>
  A state to import into, whose identity \<open>/\<close> is the import id; and a response whose
  \<open>address\<close> is a list and which has no \<open>selfLink\<close>.
\<close>

definition import_d0 :: ResourceData where
  "import_d0 = \<lparr>vals = (\<lambda>k. if k = ''users'' then VList [] else VStr []),
                 isset = (\<lambda>k. False), Id' = ''/''\<rparr>"

definition res_bad :: "string \<rightharpoonup> val" where
  "res_bad = [''address'' \<mapsto> VList []]"

text \<open>A full response for the declared address, as the API gives it.\<close>

definition res_ok :: "string \<rightharpoonup> val" where
  "res_ok =
     [''address'' \<mapsto> VStr ''10.0.0.5'',
      ''addressType'' \<mapsto> VStr ''INTERNAL'',
      ''name'' \<mapsto> VStr ''addr1'',
      ''networkTier'' \<mapsto> VStr ''PREMIUM'',
      ''region'' \<mapsto> VStr ''https://www.googleapis.com/compute/v1/projects/p1/regions/r1'',
      ''selfLink'' \<mapsto>
         VStr ''https://www.googleapis.com/compute/beta/projects/p1/regions/r1/addresses/addr1'']"

text \<open>The state of \<open>d\<close> after a read of that response.\<close>

definition addr_d1 :: ResourceData where
  "addr_d1 =
     \<lparr>vals = (\<lambda>k. if k = ''project'' then VStr ''p1''
                   else if k = ''self_link''
                     then VStr ''https://www.googleapis.com/compute/v1/projects/p1/regions/r1/addresses/addr1''
                   else if k = ''region'' then VStr ''r1''
                   else if k = ''users'' then VList []
                   else if k = ''subnetwork'' then VStr []
                   else if k = ''network_tier'' then VStr ''PREMIUM''
                   else if k = ''name'' then VStr ''addr1''
                   else if k = ''description'' then VStr []
                   else if k = ''creation_timestamp'' then VStr []
                   else if k = ''address_type'' then VStr ''INTERNAL''
                   else if k = ''address'' then VStr ''10.0.0.5''
                   else VStr []),
      isset = (\<lambda>k. k \<in> set [''name'', ''address_type'', ''project'', ''self_link'', ''region'',
                              ''users'', ''subnetwork'', ''network_tier'', ''description'',
                              ''creation_timestamp'', ''address'']),
      Id' = ''p1/r1/addr1''\<rparr>"

text \<open>
  What \<open>d.Get\<close> reads back for a field of the address after \<open>d.Set\<close> has taken the
  value \<open>w\<close> for it.
\<close>

definition readBack :: "string \<Rightarrow> val \<Rightarrow> val" where
  "readBack k w =
     (case schema_lookup resourceComputeAddress_Schema k of None \<Rightarrow> w | Some f \<Rightarrow> stored f w)"

section \<open>Properties of the two resources\<close>

subsection \<open>Rollback of the identity when the wait of Create fails\<close>

text \<open>
  C1, as stated: a Create whose poll ends in Failed or TimedOut after the identity was
  assigned leaves the identity empty. The route Create does not when the poll times out:
  for the declared route \<open>route_d0\<close>, with every lookup and the insert succeeding and
  the poll ending in \<open>TimedOut\<close>, it returns the error of the wait and the identity is
  still the route's name.
\<close>

theorem route_create_timeout_keeps_identity:
  "resourceComputeRouteCreate (api_present TimedOut) cfg0 route_d0
     = Done (Some (Wrapped ''Error waiting for route to create'' TimeoutError),
             SetId route_d0 ''route1'')
   \<and> Id' (SetId route_d0 ''route1'') = ''route1''"
  by (simp add: resourceComputeRouteCreate_def api_present_def cfg0_def route_d0_def Get_def
      GetOk_def GetOk_string_def routeCreate_nextHopInstance_def routeCreate_nextHopNetwork_def
      routeCreate_tags_def routeCreate_route_def routeCreate_insert_def routeCreate_wait_def
      SetId_def)

text \<open>
  C1, amended. The address Create whose wait ends in Failed or TimedOut returns an error
  and leaves the identity empty. The route Create, once the insert has succeeded, clears
  the identity when the finished operation carries an error (Failed); when the wait
  itself returns an error (TimedOut) it returns that error and keeps the identity it
  has assigned, the name of the route.
\<close>

theorem create_rollback:
  "(replaceVars h d config
      ''https://www.googleapis.com/compute/v1/projects/{{project}}/regions/{{region}}/addresses''
      = Inr url \<longrightarrow>
    sendRequest h config ''POST'' url (Some obj) = Inr res \<longrightarrow>
    replaceVars h d config ''{{project}}/{{region}}/{{name}}'' = Inr i \<longrightarrow>
    getProject h (SetId d i) config = Inr project \<longrightarrow>
    Convert h res = Inr op \<longrightarrow>
    computeOperationWaitTime h op project ''Creating Address'' (Timeout h (SetId d i) ''create'')
      = computeOperationWaitTime_of st \<longrightarrow>
    st \<noteq> Succeeded \<longrightarrow>
      (\<exists>e. resourceComputeAddressCreate_send h config d obj = Done (Some e, SetId d [])))
   \<and> (Routes_Insert api (Project config) route = Inr rop \<longrightarrow>
      WaitForState api rop = WaitForState_of st' rop \<longrightarrow>
        routeCreate_insert api config d route
          = (case st' of
               Succeeded \<Rightarrow> resourceComputeRouteRead api config (SetId d (Route_Name route))
             | Failed e \<Rightarrow> Done (Some (OperationError e), SetId d [])
             | TimedOut \<Rightarrow>
                 Done (Some (Wrapped ''Error waiting for route to create'' TimeoutError),
                       SetId d (Route_Name route))))"
proof (intro conjI impI)
  assume "Routes_Insert api (Project config) route = Inr rop"
    "WaitForState api rop = WaitForState_of st' rop"
  then show "routeCreate_insert api config d route
          = (case st' of
               Succeeded \<Rightarrow> resourceComputeRouteRead api config (SetId d (Route_Name route))
             | Failed e \<Rightarrow> Done (Some (OperationError e), SetId d [])
             | TimedOut \<Rightarrow>
                 Done (Some (Wrapped ''Error waiting for route to create'' TimeoutError),
                       SetId d (Route_Name route)))"
    by (cases st') (simp_all add: routeCreate_insert_def routeCreate_wait_def SetId_def)
next
  assume "replaceVars h d config
      ''https://www.googleapis.com/compute/v1/projects/{{project}}/regions/{{region}}/addresses''
      = Inr url"
    "sendRequest h config ''POST'' url (Some obj) = Inr res"
    "replaceVars h d config ''{{project}}/{{region}}/{{name}}'' = Inr i"
    "getProject h (SetId d i) config = Inr project"
    "Convert h res = Inr op"
    "computeOperationWaitTime h op project ''Creating Address'' (Timeout h (SetId d i) ''create'')
      = computeOperationWaitTime_of st"
    "st \<noteq> Succeeded"
  then show "\<exists>e. resourceComputeAddressCreate_send h config d obj = Done (Some e, SetId d [])"
    by (cases st) (simp_all add: resourceComputeAddressCreate_send_def SetId_def)
qed

theorem create_rollback_witness:
  "replaceVars (h_present TimedOut Map.empty) addr_d0 cfg0
      ''https://www.googleapis.com/compute/v1/projects/{{project}}/regions/{{region}}/addresses''
     = Inr ''https://www.googleapis.com/compute/v1/projects/p1/regions/r1/addresses''
   \<and> sendRequest (h_present TimedOut Map.empty) cfg0 ''POST''
        ''https://www.googleapis.com/compute/v1/projects/p1/regions/r1/addresses''
        (Some [''name'' \<mapsto> VStr ''addr1'']) = Inr Map.empty
   \<and> replaceVars (h_present TimedOut Map.empty) addr_d0 cfg0 ''{{project}}/{{region}}/{{name}}''
     = Inr ''p1/r1/addr1''
   \<and> getProject (h_present TimedOut Map.empty) (SetId addr_d0 ''p1/r1/addr1'') cfg0 = Inr ''p1''
   \<and> Convert (h_present TimedOut Map.empty) Map.empty
     = Inr \<lparr>Op_Name = ''op-address'', Op_Error = None\<rparr>
   \<and> computeOperationWaitTime (h_present TimedOut Map.empty)
        \<lparr>Op_Name = ''op-address'', Op_Error = None\<rparr> ''p1'' ''Creating Address''
        (Timeout (h_present TimedOut Map.empty) (SetId addr_d0 ''p1/r1/addr1'') ''create'')
     = computeOperationWaitTime_of TimedOut
   \<and> TimedOut \<noteq> Succeeded
   \<and> resourceComputeAddressCreate_send (h_present TimedOut Map.empty) cfg0 addr_d0
        [''name'' \<mapsto> VStr ''addr1'']
     = Done (Some (Wrapped ''Error waiting to create Address'' TimeoutError), SetId addr_d0 [])
   \<and> Routes_Insert (api_present (Failed ''quota'')) (Project cfg0)
        \<lparr>Route_Name = ''route1'', Route_DestRange = ''10.0.0.0/24'',
         Route_Network = ''projects/p1/global/networks/default'',
         Route_NextHopInstance = [], Route_NextHopIp = [],
         Route_NextHopNetwork = [], Route_NextHopGateway = [],
         Route_Priority = 1000, Route_Tags = []\<rparr>
     = Inr \<lparr>Op_Name = ''op-insert'', Op_Error = None\<rparr>
   \<and> WaitForState (api_present (Failed ''quota'')) \<lparr>Op_Name = ''op-insert'', Op_Error = None\<rparr>
     = WaitForState_of (Failed ''quota'') \<lparr>Op_Name = ''op-insert'', Op_Error = None\<rparr>
   \<and> routeCreate_insert (api_present (Failed ''quota'')) cfg0 route_d0
        \<lparr>Route_Name = ''route1'', Route_DestRange = ''10.0.0.0/24'',
         Route_Network = ''projects/p1/global/networks/default'',
         Route_NextHopInstance = [], Route_NextHopIp = [],
         Route_NextHopNetwork = [], Route_NextHopGateway = [],
         Route_Priority = 1000, Route_Tags = []\<rparr>
     = Done (Some (OperationError ''quota''), SetId route_d0 [])"
proof -
  let ?h = "h_present TimedOut Map.empty"
  let ?r = "\<lparr>Route_Name = ''route1'', Route_DestRange = ''10.0.0.0/24'',
         Route_Network = ''projects/p1/global/networks/default'',
         Route_NextHopInstance = [], Route_NextHopIp = [],
         Route_NextHopNetwork = [], Route_NextHopGateway = [],
         Route_Priority = 1000, Route_Tags = []\<rparr>"
  let ?op = "\<lparr>Op_Name = ''op-insert'', Op_Error = None\<rparr>"
  have a1: "replaceVars ?h addr_d0 cfg0
      ''https://www.googleapis.com/compute/v1/projects/{{project}}/regions/{{region}}/addresses''
     = Inr ''https://www.googleapis.com/compute/v1/projects/p1/regions/r1/addresses''"
    by (simp add: h_present_def replaceVars0_def fieldOr_def Get_def addr_d0_def cfg0_def
        addressUrl_def)
  have a2: "sendRequest ?h cfg0 ''POST''
        ''https://www.googleapis.com/compute/v1/projects/p1/regions/r1/addresses''
        (Some [''name'' \<mapsto> VStr ''addr1'']) = Inr Map.empty"
    by (simp add: h_present_def)
  have a3: "replaceVars ?h addr_d0 cfg0 ''{{project}}/{{region}}/{{name}}'' = Inr ''p1/r1/addr1''"
    by (simp add: h_present_def replaceVars0_def fieldOr_def Get_def addr_d0_def cfg0_def)
  have a4: "getProject ?h (SetId addr_d0 ''p1/r1/addr1'') cfg0 = Inr ''p1''"
    by (simp add: h_present_def cfg0_def)
  have a5: "Convert ?h Map.empty = Inr \<lparr>Op_Name = ''op-address'', Op_Error = None\<rparr>"
    by (simp add: h_present_def)
  have a6: "computeOperationWaitTime ?h \<lparr>Op_Name = ''op-address'', Op_Error = None\<rparr> ''p1''
        ''Creating Address'' (Timeout ?h (SetId addr_d0 ''p1/r1/addr1'') ''create'')
     = computeOperationWaitTime_of TimedOut"
    by (simp add: h_present_def)
  have a7: "TimedOut \<noteq> Succeeded"
    by simp
  have b1: "Routes_Insert (api_present (Failed ''quota'')) (Project cfg0) ?r = Inr ?op"
    by (simp add: api_present_def)
  have b2: "WaitForState (api_present (Failed ''quota'')) ?op = WaitForState_of (Failed ''quota'') ?op"
    by (simp add: api_present_def)
  have c: "resourceComputeAddressCreate_send ?h cfg0 addr_d0 [''name'' \<mapsto> VStr ''addr1'']
     = Done (Some (Wrapped ''Error waiting to create Address'' TimeoutError), SetId addr_d0 [])"
    by (simp add: resourceComputeAddressCreate_send_def h_present_def replaceVars0_def
        fieldOr_def Get_def addr_d0_def cfg0_def addressUrl_def SetId_def Let_def)
  from create_rollback [THEN conjunct1, rule_format, OF a1 a2 a3 a4 a5 a6 a7]
    create_rollback [THEN conjunct2, rule_format, OF b1 b2, of route_d0]
  show ?thesis
    using a1 a2 a3 a4 a5 a6 b1 b2 c by simp
qed

text \<open>
  The whole of each Create on concrete inputs: the route Create whose operation fails,
  the address Create whose wait times out, and the address Create that succeeds and
  reads the object back.
\<close>

lemma route_create_failed_clears_identity:
  "resourceComputeRouteCreate (api_present (Failed ''quota'')) cfg0 route_d0
     = Done (Some (OperationError ''quota''), SetId route_d0 [])"
  by (simp add: resourceComputeRouteCreate_def api_present_def cfg0_def route_d0_def Get_def
      GetOk_def GetOk_string_def routeCreate_nextHopInstance_def routeCreate_nextHopNetwork_def
      routeCreate_tags_def routeCreate_route_def routeCreate_insert_def routeCreate_wait_def
      SetId_def)

lemma address_create_timeout_clears_identity:
  "resourceComputeAddressCreate (h_present TimedOut Map.empty) cfg0 addr_d0
     = Done (Some (Wrapped ''Error waiting to create Address'' TimeoutError), SetId addr_d0 [])"
  by (simp add: resourceComputeAddressCreate_def resourceComputeAddressCreate_obj_def
      resourceComputeAddressCreate_send_def expandComputeAddressAddress_def
      expandComputeAddressAddressType_def expandComputeAddressDescription_def
      expandComputeAddressName_def expandComputeAddressNetworkTier_def
      expandComputeAddressSubnetwork_def expandComputeAddressRegion_def
      RegionalFieldValue_RelativeLink_def GlobalFieldValue_RelativeLink_def
      parseRegionalFieldValue0_def parseGlobalFieldValue0_def
      h_present_def replaceVars0_def fieldOr_def addr_d0_def cfg0_def Get_def GetOkExists_def
      addProp_def addressUrl_def SetId_def Let_def)

lemma address_create_ok:
  "resourceComputeAddressCreate (h_present Succeeded res_ok) cfg0 addr_d0 = Done (None, addr_d1)"
  by (simp add: resourceComputeAddressCreate_def resourceComputeAddressCreate_obj_def
      resourceComputeAddressCreate_send_def expandComputeAddressAddress_def
      expandComputeAddressAddressType_def expandComputeAddressDescription_def
      expandComputeAddressName_def expandComputeAddressNetworkTier_def
      expandComputeAddressSubnetwork_def expandComputeAddressRegion_def
      RegionalFieldValue_RelativeLink_def GlobalFieldValue_RelativeLink_def
      parseRegionalFieldValue0_def parseGlobalFieldValue0_def
      GetOkExists_def addProp_def SetId_def
      resourceComputeAddressRead_def h_present_def replaceVars0_def res_ok_def
      addressRead_fields_def idx_def Set_def resourceComputeAddress_Schema_def field_def Let_def
      addressUrl_def flattenComputeAddressAddress_def flattenComputeAddressAddressType_def
      flattenComputeAddressCreationTimestamp_def flattenComputeAddressDescription_def
      flattenComputeAddressName_def flattenComputeAddressNetworkTier_def
      flattenComputeAddressSubnetwork_def flattenComputeAddressUsers_def
      flattenComputeAddressRegion_def NameFromSelfLinkStateFunc_def
      GetResourceNameFromSelfLink_def ConvertSelfLinkToV1_def apiBase_def
      addr_d0_def addr_d1_def cfg0_def fieldOr_def Get_def fun_eq_iff)

subsection \<open>ForceNew in the two schemas\<close>

text \<open>
  C4, as stated: every field of the two schemas is ForceNew. It fails at the address
  field \<open>creation_timestamp\<close>, which is computed only and not ForceNew.
\<close>

theorem creation_timestamp_not_ForceNew:
  "map_option ForceNew (schema_lookup resourceComputeAddress_Schema ''creation_timestamp'')
     = Some False"
  by (simp add: resourceComputeAddress_Schema_def field_def)

text \<open>
  C4, amended. In the address schema a field is ForceNew exactly when the user can set it
  (it is Required or Optional); the fields that are only Computed are not ForceNew. In
  the route schema every field other than \<open>tags\<close> is ForceNew.
\<close>

theorem settable_fields_ForceNew:
  "(\<forall>f \<in> set resourceComputeAddress_Schema. (Required f \<or> Optional f) = ForceNew f)
   \<and> (\<forall>f \<in> set resourceComputeRoute_Schema. Name f \<noteq> ''tags'' \<longrightarrow> ForceNew f)"
  by (simp add: resourceComputeAddress_Schema_def resourceComputeRoute_Schema_def field_def)

theorem settable_fields_ForceNew_witness:
  "(field ''region'' TypeString)\<lparr>Computed := True, Optional := True, ForceNew := True\<rparr>
      \<in> set resourceComputeAddress_Schema
   \<and> (Required ((field ''region'' TypeString)\<lparr>Computed := True, Optional := True, ForceNew := True\<rparr>)
        \<or> Optional ((field ''region'' TypeString)\<lparr>Computed := True, Optional := True, ForceNew := True\<rparr>))
   \<and> ForceNew ((field ''region'' TypeString)\<lparr>Computed := True, Optional := True, ForceNew := True\<rparr>)
   \<and> (field ''priority'' TypeInt)\<lparr>Required := True, ForceNew := True\<rparr>
      \<in> set resourceComputeRoute_Schema
   \<and> Name ((field ''priority'' TypeInt)\<lparr>Required := True, ForceNew := True\<rparr>) \<noteq> ''tags''
   \<and> ForceNew ((field ''priority'' TypeInt)\<lparr>Required := True, ForceNew := True\<rparr>)"
  using settable_fields_ForceNew
  by (simp add: resourceComputeAddress_Schema_def resourceComputeRoute_Schema_def field_def)

subsection \<open>Delete of an object that is already gone\<close>

text \<open>
  C2, as stated: a Delete whose deletion request is answered NotFound returns success.
  The route Delete does not: it returns the NotFound answer wrapped as an error.
\<close>

theorem route_delete_not_found_errors:
  "resourceComputeRouteDelete api_gone cfg0 (SetId route_d0 ''route1'')
     = Done (Some (Wrapped ''Error deleting route'' NotFound), SetId route_d0 ''route1'')"
  by (simp add: resourceComputeRouteDelete_def api_gone_def api_present_def)

text \<open>
  C2, amended. The address Delete whose request is answered NotFound returns no error
  and clears the identity, whatever the wait would answer: it does not poll. The route
  Delete returns every error of its request, NotFound included, wrapped as "Error
  deleting route", with the identity kept, whatever the wait would answer.
\<close>

theorem delete_not_found:
  "(replaceVars h d config addressUrl = Inr url \<longrightarrow>
    sendRequest h config ''DELETE'' url None = Inl NotFound \<longrightarrow>
    resourceComputeAddressDelete (h\<lparr>computeOperationWaitTime := w\<rparr>) config d
      = Done (None, SetId d []))
   \<and> (Routes_Delete api (Project config) (Id' d) = Inl err \<longrightarrow>
      resourceComputeRouteDelete (api\<lparr>WaitForState := w'\<rparr>) config d
        = Done (Some (Wrapped ''Error deleting route'' err), d))"
  by (simp add: resourceComputeAddressDelete_def resourceComputeRouteDelete_def
      handleNotFoundError_def)

theorem delete_not_found_witness:
  "replaceVars h_gone addr_d0 cfg0 addressUrl
     = Inr ''https://www.googleapis.com/compute/v1/projects/p1/regions/r1/addresses/addr1''
   \<and> sendRequest h_gone cfg0 ''DELETE''
        ''https://www.googleapis.com/compute/v1/projects/p1/regions/r1/addresses/addr1'' None
     = Inl NotFound
   \<and> resourceComputeAddressDelete (h_gone\<lparr>computeOperationWaitTime := (\<lambda>op p a t. Some TimeoutError)\<rparr>)
        cfg0 addr_d0
     = Done (None, SetId addr_d0 [])
   \<and> Routes_Delete api_gone (Project cfg0) (Id' (SetId route_d0 ''route1'')) = Inl NotFound
   \<and> resourceComputeRouteDelete (api_gone\<lparr>WaitForState := WaitForState_of Succeeded\<rparr>)
        cfg0 (SetId route_d0 ''route1'')
     = Done (Some (Wrapped ''Error deleting route'' NotFound), SetId route_d0 ''route1'')"
  using delete_not_found [where h = h_gone and d = addr_d0 and config = cfg0
      and url = "''https://www.googleapis.com/compute/v1/projects/p1/regions/r1/addresses/addr1''"
      and w = "\<lambda>op p a t. Some TimeoutError" and api = api_gone and err = NotFound]
    delete_not_found [where h = h_gone and d = "SetId route_d0 ''route1''" and config = cfg0
      and api = api_gone and err = NotFound and w' = "WaitForState_of Succeeded"]
  by (simp add: h_gone_def h_present_def replaceVars0_def fieldOr_def Get_def addr_d0_def
      cfg0_def addressUrl_def api_gone_def api_present_def)

subsection \<open>Read of an object that is already gone\<close>

text \<open>
  C3, as stated: a Read whose fetch is answered NotFound reports the absence without an
  error. The route Read does not: it returns the NotFound answer as an ordinary error
  and keeps the identity.
\<close>

theorem route_read_not_found_errors:
  "resourceComputeRouteRead api_gone cfg0 (SetId route_d0 ''route1'')
     = Done (Some (Wrapped ''Error reading route'' NotFound), SetId route_d0 ''route1'')"
  by (simp add: resourceComputeRouteRead_def api_gone_def api_present_def)

text \<open>
  C3, amended. The address Read whose fetch is answered NotFound returns no error and
  clears the identity, and it returns every other error of the fetch as an error, with
  the identity kept. The route Read returns every error of its fetch, NotFound included,
  wrapped as "Error reading route", with the identity kept.
\<close>

theorem read_not_found:
  "(replaceVars h d config addressUrl = Inr url \<longrightarrow>
    sendRequest h config ''GET'' url None = Inl err \<longrightarrow>
    resourceComputeAddressRead h config d
      = (if err = NotFound then Done (None, SetId d [])
         else Done (Some (Wrapped (''Error reading ComputeAddress '' @ Id' d) err), d)))
   \<and> (Routes_Get api (Project config) (Id' d) = Inl err' \<longrightarrow>
      resourceComputeRouteRead api config d
        = Done (Some (Wrapped ''Error reading route'' err'), d))"
  by (simp add: resourceComputeAddressRead_def resourceComputeRouteRead_def
      handleNotFoundError_def)

theorem read_not_found_witness:
  "replaceVars h_gone addr_d0 cfg0 addressUrl
     = Inr ''https://www.googleapis.com/compute/v1/projects/p1/regions/r1/addresses/addr1''
   \<and> sendRequest h_gone cfg0 ''GET''
        ''https://www.googleapis.com/compute/v1/projects/p1/regions/r1/addresses/addr1'' None
     = Inl NotFound
   \<and> resourceComputeAddressRead h_gone cfg0 addr_d0 = Done (None, SetId addr_d0 [])
   \<and> Routes_Get api_gone (Project cfg0) (Id' (SetId route_d0 ''route1'')) = Inl NotFound
   \<and> resourceComputeRouteRead api_gone cfg0 (SetId route_d0 ''route1'')
     = Done (Some (Wrapped ''Error reading route'' NotFound), SetId route_d0 ''route1'')"
  using read_not_found [where h = h_gone and d = addr_d0 and config = cfg0
      and url = "''https://www.googleapis.com/compute/v1/projects/p1/regions/r1/addresses/addr1''"
      and err = NotFound and api = api_gone]
    read_not_found [where h = h_gone and d = "SetId route_d0 ''route1''" and config = cfg0
      and api = api_gone and err' = NotFound]
  by (simp add: h_gone_def h_present_def replaceVars0_def fieldOr_def Get_def addr_d0_def
      cfg0_def addressUrl_def api_gone_def api_present_def)

subsection \<open>The payload of the address Create\<close>

lemma addProp_Some:
  "addProp d k wk p obj wk' = Some w \<Longrightarrow>
     (wk' = wk \<and> w = p \<and> \<not> isEmptyValue p \<and> (isset d k \<or> Get d k \<noteq> p)) \<or> obj wk' = Some w"
  by (auto simp: addProp_def GetOkExists_def Get_def split: if_splits)

lemma isEmptyValue_VStr: "\<not> isEmptyValue w \<Longrightarrow> w \<noteq> VStr []"
  by (cases w) auto

lemma chain7:
  assumes "\<not> a1 \<or> c1" "\<not> a2 \<or> a1 \<or> c2" "\<not> a3 \<or> a2 \<or> c3" "\<not> a4 \<or> a3 \<or> c4"
    "\<not> a5 \<or> a4 \<or> c5" "\<not> a6 \<or> a5 \<or> c6" "a6 \<or> c7"
    "c1 \<Longrightarrow> P" "c2 \<Longrightarrow> P" "c3 \<Longrightarrow> P" "c4 \<Longrightarrow> P" "c5 \<Longrightarrow> P" "c6 \<Longrightarrow> P" "c7 \<Longrightarrow> P"
  shows P
  using assms by blast

lemma obj_shape:
  assumes "resourceComputeAddressCreate_obj h config d = Done (Inr obj)"
  shows "\<exists>sp rp. expandComputeAddressSubnetwork h (Get d ''subnetwork'') d config = Done (Inr sp)
     \<and> expandComputeAddressRegion h (Get d ''region'') d config = Done (Inr rp)
     \<and> obj = addProp d ''region'' ''region'' rp
            (addProp d ''subnetwork'' ''subnetwork'' sp
            (addProp d ''network_tier'' ''networkTier'' (Get d ''network_tier'')
            (addProp d ''name'' ''name'' (Get d ''name'')
            (addProp d ''description'' ''description'' (Get d ''description'')
            (addProp d ''address_type'' ''addressType'' (Get d ''address_type'')
            (addProp d ''address'' ''address'' (Get d ''address'') Map.empty))))))"
  using assms
  by (simp add: resourceComputeAddressCreate_obj_def expandComputeAddressAddress_def
      expandComputeAddressAddressType_def expandComputeAddressDescription_def
      expandComputeAddressName_def expandComputeAddressNetworkTier_def
      split: outcome.splits sum.splits)

text \<open>
  C5. Whenever \<open>resourceComputeAddressCreate\<close> has built its payload, every key of
  the payload is the wire name of a declared field, its value is the expanded value of
  that field, this value is not empty (not the empty string in particular), and the field
  was explicitly set or its declared value differs from the expanded one.
\<close>

theorem payload_no_empty_values:
  assumes "resourceComputeAddressCreate_obj h config d = Done (Inr obj)" and "obj wk = Some w"
  shows "\<exists>k. (k, wk) \<in> set addressWireNames \<and> addressExpand h k (Get d k) d config = Done (Inr w)
           \<and> \<not> isEmptyValue w \<and> w \<noteq> VStr [] \<and> (isset d k \<or> Get d k \<noteq> w)"
proof -
  from obj_shape [OF assms(1)] obtain sp rp where
    s: "expandComputeAddressSubnetwork h (Get d ''subnetwork'') d config = Done (Inr sp)" and
    r: "expandComputeAddressRegion h (Get d ''region'') d config = Done (Inr rp)" and
    o: "obj = addProp d ''region'' ''region'' rp
            (addProp d ''subnetwork'' ''subnetwork'' sp
            (addProp d ''network_tier'' ''networkTier'' (Get d ''network_tier'')
            (addProp d ''name'' ''name'' (Get d ''name'')
            (addProp d ''description'' ''description'' (Get d ''description'')
            (addProp d ''address_type'' ''addressType'' (Get d ''address_type'')
            (addProp d ''address'' ''address'' (Get d ''address'') Map.empty))))))"
    by blast
  define o1 where "o1 = addProp d ''address'' ''address'' (Get d ''address'') Map.empty"
  define o2 where "o2 = addProp d ''address_type'' ''addressType'' (Get d ''address_type'') o1"
  define o3 where "o3 = addProp d ''description'' ''description'' (Get d ''description'') o2"
  define o4 where "o4 = addProp d ''name'' ''name'' (Get d ''name'') o3"
  define o5 where "o5 = addProp d ''network_tier'' ''networkTier'' (Get d ''network_tier'') o4"
  define o6 where "o6 = addProp d ''subnetwork'' ''subnetwork'' sp o5"
  have o7: "obj = addProp d ''region'' ''region'' rp o6"
    by (simp only: o o1_def o2_def o3_def o4_def o5_def o6_def)
  have e1: "o1 wk \<noteq> Some w \<or>
      (wk = ''address'' \<and> w = Get d ''address'' \<and> \<not> isEmptyValue w \<and> isset d ''address'')"
    using addProp_Some [of d "''address''" "''address''" "Get d ''address''" Map.empty wk w]
    unfolding o1_def by auto
  have e2: "o2 wk \<noteq> Some w \<or> o1 wk = Some w \<or>
      (wk = ''addressType'' \<and> w = Get d ''address_type'' \<and> \<not> isEmptyValue w \<and> isset d ''address_type'')"
    using addProp_Some [of d "''address_type''" "''addressType''" "Get d ''address_type''" o1 wk w]
    unfolding o2_def by auto
  have e3: "o3 wk \<noteq> Some w \<or> o2 wk = Some w \<or>
      (wk = ''description'' \<and> w = Get d ''description'' \<and> \<not> isEmptyValue w \<and> isset d ''description'')"
    using addProp_Some [of d "''description''" "''description''" "Get d ''description''" o2 wk w]
    unfolding o3_def by auto
  have e4: "o4 wk \<noteq> Some w \<or> o3 wk = Some w \<or>
      (wk = ''name'' \<and> w = Get d ''name'' \<and> \<not> isEmptyValue w \<and> isset d ''name'')"
    using addProp_Some [of d "''name''" "''name''" "Get d ''name''" o3 wk w]
    unfolding o4_def by auto
  have e5: "o5 wk \<noteq> Some w \<or> o4 wk = Some w \<or>
      (wk = ''networkTier'' \<and> w = Get d ''network_tier'' \<and> \<not> isEmptyValue w \<and> isset d ''network_tier'')"
    using addProp_Some [of d "''network_tier''" "''networkTier''" "Get d ''network_tier''" o4 wk w]
    unfolding o5_def by auto
  have e6: "o6 wk \<noteq> Some w \<or> o5 wk = Some w \<or>
      (wk = ''subnetwork'' \<and> w = sp \<and> \<not> isEmptyValue sp \<and> (isset d ''subnetwork'' \<or> Get d ''subnetwork'' \<noteq> sp))"
    using addProp_Some [of d "''subnetwork''" "''subnetwork''" sp o5 wk w]
    unfolding o6_def by auto
  have e7: "o6 wk = Some w \<or>
      (wk = ''region'' \<and> w = rp \<and> \<not> isEmptyValue rp \<and> (isset d ''region'' \<or> Get d ''region'' \<noteq> rp))"
    using addProp_Some [of d "''region''" "''region''" rp o6 wk w] assms(2)
    unfolding o7 by auto
  have c7: "?thesis" if "wk = ''region'' \<and> w = rp \<and> \<not> isEmptyValue rp \<and> (isset d ''region'' \<or> Get d ''region'' \<noteq> rp)"
    using that r by (intro exI [of _ "''region''"])
      (auto simp add: addressWireNames_def addressExpand_def isEmptyValue_VStr)
  have c6: "?thesis" if "wk = ''subnetwork'' \<and> w = sp \<and> \<not> isEmptyValue sp \<and> (isset d ''subnetwork'' \<or> Get d ''subnetwork'' \<noteq> sp)"
    using that s by (intro exI [of _ "''subnetwork''"])
      (auto simp add: addressWireNames_def addressExpand_def isEmptyValue_VStr)
  have c5: "?thesis" if "wk = ''networkTier'' \<and> w = Get d ''network_tier'' \<and> \<not> isEmptyValue w \<and> isset d ''network_tier''"
    using that by (intro exI [of _ "''network_tier''"])
      (auto simp add: addressWireNames_def addressExpand_def isEmptyValue_VStr expandComputeAddressNetworkTier_def)
  have c4: "?thesis" if "wk = ''name'' \<and> w = Get d ''name'' \<and> \<not> isEmptyValue w \<and> isset d ''name''"
    using that by (intro exI [of _ "''name''"])
      (auto simp add: addressWireNames_def addressExpand_def isEmptyValue_VStr expandComputeAddressName_def)
  have c3: "?thesis" if "wk = ''description'' \<and> w = Get d ''description'' \<and> \<not> isEmptyValue w \<and> isset d ''description''"
    using that by (intro exI [of _ "''description''"])
      (auto simp add: addressWireNames_def addressExpand_def isEmptyValue_VStr expandComputeAddressDescription_def)
  have c2: "?thesis" if "wk = ''addressType'' \<and> w = Get d ''address_type'' \<and> \<not> isEmptyValue w \<and> isset d ''address_type''"
    using that by (intro exI [of _ "''address_type''"])
      (auto simp add: addressWireNames_def addressExpand_def isEmptyValue_VStr expandComputeAddressAddressType_def)
  have c1: "?thesis" if "wk = ''address'' \<and> w = Get d ''address'' \<and> \<not> isEmptyValue w \<and> isset d ''address''"
    using that by (intro exI [of _ "''address''"])
      (auto simp add: addressWireNames_def addressExpand_def isEmptyValue_VStr expandComputeAddressAddress_def)
  show ?thesis
    by (rule chain7 [OF e1 e2 e3 e4 e5 e6 e7 c1 c2 c3 c4 c5 c6 c7])
qed

theorem payload_no_empty_values_witness:
  "resourceComputeAddressCreate_obj (h_present Succeeded Map.empty) cfg0 addr_d0
     = Done (Inr [''addressType'' \<mapsto> VStr ''INTERNAL'', ''name'' \<mapsto> VStr ''addr1''])
   \<and> [''addressType'' \<mapsto> VStr ''INTERNAL'', ''name'' \<mapsto> VStr ''addr1''] ''addressType''
     = Some (VStr ''INTERNAL'')
   \<and> (\<exists>k. (k, ''addressType'') \<in> set addressWireNames
          \<and> addressExpand (h_present Succeeded Map.empty) k (Get addr_d0 k) addr_d0 cfg0
            = Done (Inr (VStr ''INTERNAL''))
          \<and> \<not> isEmptyValue (VStr ''INTERNAL'') \<and> VStr ''INTERNAL'' \<noteq> VStr []
          \<and> (isset addr_d0 k \<or> Get addr_d0 k \<noteq> VStr ''INTERNAL''))"
proof -
  have a: "resourceComputeAddressCreate_obj (h_present Succeeded Map.empty) cfg0 addr_d0
     = Done (Inr [''addressType'' \<mapsto> VStr ''INTERNAL'', ''name'' \<mapsto> VStr ''addr1''])"
    by (simp add: resourceComputeAddressCreate_obj_def expandComputeAddressAddress_def
        expandComputeAddressAddressType_def expandComputeAddressDescription_def
        expandComputeAddressName_def expandComputeAddressNetworkTier_def
        expandComputeAddressSubnetwork_def expandComputeAddressRegion_def
        RegionalFieldValue_RelativeLink_def GlobalFieldValue_RelativeLink_def
      parseRegionalFieldValue0_def parseGlobalFieldValue0_def
        h_present_def addr_d0_def cfg0_def Get_def GetOkExists_def addProp_def)
  have b: "[''addressType'' \<mapsto> VStr ''INTERNAL'', ''name'' \<mapsto> VStr ''addr1''] ''addressType''
     = Some (VStr ''INTERNAL'')"
    by simp
  show ?thesis
    using payload_no_empty_values [OF a b] a b by simp
qed

subsection \<open>What Read writes into the state\<close>

lemma Set_Inr:
  "Set sch d k v = Inr d' \<Longrightarrow>
     \<exists>f. schema_lookup sch k = Some f
       \<and> d' = d\<lparr>vals := (vals d)(k := stored f v), isset := (isset d)(k := True)\<rparr>"
  by (auto simp: Set_def split: option.splits if_splits)

lemma setAll_other:
  "setAll d fs = Done (Inr d') \<Longrightarrow> k \<notin> fst ` set fs \<Longrightarrow> vals d' k = vals d k"
proof (induction d fs rule: setAll.induct)
  case (1 d)
  then show ?case by simp
next
  case (2 d k' rest)
  then show ?case by simp
next
  case (3 d k' v rest)
  then show ?case
    by (auto split: sum.splits dest!: Set_Inr)
qed

lemma setAll_vals:
  "setAll d fs = Done (Inr d') \<Longrightarrow> distinct (map fst fs) \<Longrightarrow> (k, oc) \<in> set fs \<Longrightarrow>
     \<exists>w. oc = Done w \<and> vals d' k = readBack k w"
proof (induction d fs rule: setAll.induct)
  case (1 d)
  then show ?case by simp
next
  case (2 d k' rest)
  then show ?case by simp
next
  case (3 d k' v rest)
  from "3.prems"(1) obtain d1 where
    s: "Set resourceComputeAddress_Schema d k' v = Inr d1" and r: "setAll d1 rest = Done (Inr d')"
    by (auto split: sum.splits)
  show ?case
  proof (cases "(k, oc) = (k', Done v)")
    case True
    from "3.prems"(2) have "k' \<notin> fst ` set rest" by simp
    with r have "vals d' k' = vals d1 k'" by (rule setAll_other)
    moreover from s have "vals d1 k' = readBack k' v"
      by (auto simp: readBack_def dest!: Set_Inr)
    ultimately show ?thesis using True by simp
  next
    case False
    with "3.prems" have "(k, oc) \<in> set rest" "distinct (map fst rest)" by auto
    with "3.IH" [OF s r] show ?thesis by blast
  qed
qed

lemma setAll_snoc_Panic:
  "setAll d (fs @ [(k, Panic)]) = (case setAll d fs of Done (Inr d') \<Rightarrow> Panic | r \<Rightarrow> r)"
  by (induction d fs rule: setAll.induct) (auto split: sum.splits)

lemma distinct_addressRead_fields: "distinct (map fst (addressRead_fields res))"
  by (simp add: addressRead_fields_def)

lemma address_read_fields:
  assumes "replaceVars h d config addressUrl = Inr url"
    and "sendRequest h config ''GET'' url None = Inr res"
    and "resourceComputeAddressRead h config d = Done (None, d')"
  shows "\<exists>d9 project. setAll d (addressRead_fields res) = Done (Inr d9)
           \<and> getProject h d9 config = Inr project
           \<and> d' = d9\<lparr>vals := (vals d9)(''project'' := VStr project),
                     isset := (isset d9)(''project'' := True)\<rparr>"
  using assms
  by (auto simp: resourceComputeAddressRead_def split: outcome.splits sum.splits prod.splits dest!: Set_Inr)

lemma address_read_ok:
  "resourceComputeAddressRead (h_present Succeeded res_ok) cfg0 addr_d0 = Done (None, addr_d1)"
  by (simp add: resourceComputeAddressRead_def h_present_def replaceVars0_def res_ok_def
      addressRead_fields_def idx_def Set_def resourceComputeAddress_Schema_def field_def Let_def
      addressUrl_def flattenComputeAddressAddress_def flattenComputeAddressAddressType_def
      flattenComputeAddressCreationTimestamp_def flattenComputeAddressDescription_def
      flattenComputeAddressName_def flattenComputeAddressNetworkTier_def
      flattenComputeAddressSubnetwork_def flattenComputeAddressUsers_def
      flattenComputeAddressRegion_def NameFromSelfLinkStateFunc_def
      GetResourceNameFromSelfLink_def ConvertSelfLinkToV1_def apiBase_def
      addr_d0_def addr_d1_def cfg0_def fun_eq_iff)

text \<open>
  C9, as stated: a successful Read writes every declared field by flattening the
  corresponding wire field of the fetched object. The route Read does not: the fetched
  route has another destination range than the declared state, the Read succeeds, and
  the state is unchanged. Nor does the address Read for \<open>project\<close>: the response has
  no such field, and the state holds the project of the configuration.
\<close>

theorem read_not_from_wire:
  "resourceComputeRouteRead (api_present Succeeded) cfg0 (SetId route_d0 ''route1'')
     = Done (None, SetId route_d0 ''route1'')
   \<and> map_sum id Route_DestRange
        (Routes_Get (api_present Succeeded) (Project cfg0) (Id' (SetId route_d0 ''route1'')))
     = Inr ''192.168.0.0/16''
   \<and> Get (SetId route_d0 ''route1'') ''dest_range'' = VStr ''10.0.0.0/24''
   \<and> resourceComputeAddressRead (h_present Succeeded res_ok) cfg0 addr_d0 = Done (None, addr_d1)
   \<and> res_ok ''project'' = None
   \<and> Get addr_d1 ''project'' = VStr (Project cfg0)"
  using address_read_ok
  by (simp add: resourceComputeRouteRead_def api_present_def SetId_def route_d0_def Get_def
      res_ok_def addr_d1_def cfg0_def)

text \<open>
  C9, amended. After a successful address Read each of the fields address, address_type,
  creation_timestamp, description, name, network_tier, subnetwork, users and region
  reads back as the flattened value of its wire field, and self_link as the v1 form of
  the wire \<open>selfLink\<close>, which is a string; a value that is \<open>nil\<close> reads back as the
  zero value of the field. The field project holds the project that \<open>getProject\<close>
  gives, not a wire field. A successful route Read leaves the state as it was.
\<close>

theorem read_writes_flattened:
  "(replaceVars h d config addressUrl = Inr url \<longrightarrow>
    sendRequest h config ''GET'' url None = Inr res \<longrightarrow>
    resourceComputeAddressRead h config d = Done (None, d') \<longrightarrow>
      Get d' ''address'' = readBack ''address'' (flattenComputeAddressAddress (idx res ''address''))
    \<and> (\<exists>w. flattenComputeAddressAddressType (idx res ''addressType'') = Done w
           \<and> Get d' ''address_type'' = readBack ''address_type'' w)
    \<and> Get d' ''creation_timestamp''
        = readBack ''creation_timestamp''
            (flattenComputeAddressCreationTimestamp (idx res ''creationTimestamp''))
    \<and> Get d' ''description''
        = readBack ''description'' (flattenComputeAddressDescription (idx res ''description''))
    \<and> Get d' ''name'' = readBack ''name'' (flattenComputeAddressName (idx res ''name''))
    \<and> Get d' ''network_tier''
        = readBack ''network_tier'' (flattenComputeAddressNetworkTier (idx res ''networkTier''))
    \<and> (\<exists>w. flattenComputeAddressSubnetwork (idx res ''subnetwork'') = Done w
           \<and> Get d' ''subnetwork'' = readBack ''subnetwork'' w)
    \<and> Get d' ''users'' = readBack ''users'' (flattenComputeAddressUsers (idx res ''users''))
    \<and> (\<exists>w. flattenComputeAddressRegion (idx res ''region'') = Done w
           \<and> Get d' ''region'' = readBack ''region'' w)
    \<and> (\<exists>s. idx res ''selfLink'' = VStr s \<and> Get d' ''self_link'' = VStr (ConvertSelfLinkToV1 s))
    \<and> (\<exists>d9 project. setAll d (addressRead_fields res) = Done (Inr d9)
          \<and> getProject h d9 config = Inr project \<and> Get d' ''project'' = VStr project))
   \<and> (Routes_Get api (Project config) (Id' d) = Inr r \<longrightarrow>
      resourceComputeRouteRead api config d = Done (None, d))"
proof (intro conjI impI)
  show "resourceComputeRouteRead api config d = Done (None, d)"
    if "Routes_Get api (Project config) (Id' d) = Inr r"
    using that by (simp add: resourceComputeRouteRead_def)
next
  assume a: "replaceVars h d config addressUrl = Inr url"
    "sendRequest h config ''GET'' url None = Inr res"
    "resourceComputeAddressRead h config d = Done (None, d')"
  from address_read_fields [OF a] obtain d9 project where
    sa: "setAll d (addressRead_fields res) = Done (Inr d9)" and
    gp: "getProject h d9 config = Inr project" and
    d': "d' = d9\<lparr>vals := (vals d9)(''project'' := VStr project),
                  isset := (isset d9)(''project'' := True)\<rparr>"
    by blast
  have v: "\<exists>w. oc = Done w \<and> vals d9 k = readBack k w"
    if "(k, oc) \<in> set (addressRead_fields res)" for k oc
    using setAll_vals [OF sa distinct_addressRead_fields that] .
  have g: "Get d' k = vals d9 k" if "k \<noteq> ''project''" for k
    using that by (simp add: Get_def d')
  show "Get d' ''address'' = readBack ''address'' (flattenComputeAddressAddress (idx res ''address''))"
    using v [of "''address''" "Done (flattenComputeAddressAddress (idx res ''address''))"]
    by (simp add: addressRead_fields_def g)
  show "\<exists>w. flattenComputeAddressAddressType (idx res ''addressType'') = Done w
           \<and> Get d' ''address_type'' = readBack ''address_type'' w"
    using v [of "''address_type''" "flattenComputeAddressAddressType (idx res ''addressType'')"]
    by (simp add: addressRead_fields_def g)
  show "Get d' ''creation_timestamp''
        = readBack ''creation_timestamp''
            (flattenComputeAddressCreationTimestamp (idx res ''creationTimestamp''))"
    using v [of "''creation_timestamp''"
        "Done (flattenComputeAddressCreationTimestamp (idx res ''creationTimestamp''))"]
    by (simp add: addressRead_fields_def g)
  show "Get d' ''description''
        = readBack ''description'' (flattenComputeAddressDescription (idx res ''description''))"
    using v [of "''description''" "Done (flattenComputeAddressDescription (idx res ''description''))"]
    by (simp add: addressRead_fields_def g)
  show "Get d' ''name'' = readBack ''name'' (flattenComputeAddressName (idx res ''name''))"
    using v [of "''name''" "Done (flattenComputeAddressName (idx res ''name''))"]
    by (simp add: addressRead_fields_def g)
  show "Get d' ''network_tier''
        = readBack ''network_tier'' (flattenComputeAddressNetworkTier (idx res ''networkTier''))"
    using v [of "''network_tier''" "Done (flattenComputeAddressNetworkTier (idx res ''networkTier''))"]
    by (simp add: addressRead_fields_def g)
  show "\<exists>w. flattenComputeAddressSubnetwork (idx res ''subnetwork'') = Done w
           \<and> Get d' ''subnetwork'' = readBack ''subnetwork'' w"
    using v [of "''subnetwork''" "flattenComputeAddressSubnetwork (idx res ''subnetwork'')"]
    by (simp add: addressRead_fields_def g)
  show "Get d' ''users'' = readBack ''users'' (flattenComputeAddressUsers (idx res ''users''))"
    using v [of "''users''" "Done (flattenComputeAddressUsers (idx res ''users''))"]
    by (simp add: addressRead_fields_def g)
  show "\<exists>w. flattenComputeAddressRegion (idx res ''region'') = Done w
           \<and> Get d' ''region'' = readBack ''region'' w"
    using v [of "''region''" "flattenComputeAddressRegion (idx res ''region'')"]
    by (simp add: addressRead_fields_def g)
  show "\<exists>s. idx res ''selfLink'' = VStr s \<and> Get d' ''self_link'' = VStr (ConvertSelfLinkToV1 s)"
    using v [of "''self_link''" "case asString (idx res ''selfLink'') of
             None \<Rightarrow> Panic | Some s \<Rightarrow> Done (VStr (ConvertSelfLinkToV1 s))"]
    by (cases "idx res ''selfLink''")
       (simp_all add: addressRead_fields_def g readBack_def resourceComputeAddress_Schema_def
          field_def)
  show "\<exists>d9 project. setAll d (addressRead_fields res) = Done (Inr d9)
          \<and> getProject h d9 config = Inr project \<and> Get d' ''project'' = VStr project"
    using sa gp by (simp add: Get_def d')
qed

theorem read_writes_flattened_witness:
  "replaceVars (h_present Succeeded res_ok) addr_d0 cfg0 addressUrl
     = Inr ''https://www.googleapis.com/compute/v1/projects/p1/regions/r1/addresses/addr1''
   \<and> sendRequest (h_present Succeeded res_ok) cfg0 ''GET''
        ''https://www.googleapis.com/compute/v1/projects/p1/regions/r1/addresses/addr1'' None
     = Inr res_ok
   \<and> resourceComputeAddressRead (h_present Succeeded res_ok) cfg0 addr_d0 = Done (None, addr_d1)
   \<and> (\<exists>w. flattenComputeAddressAddressType (idx res_ok ''addressType'') = Done w
          \<and> Get addr_d1 ''address_type'' = readBack ''address_type'' w)
   \<and> Get addr_d1 ''address_type'' = VStr ''INTERNAL''
   \<and> Get addr_d1 ''description''
       = readBack ''description'' (flattenComputeAddressDescription (idx res_ok ''description''))
   \<and> idx res_ok ''description'' = VNil
   \<and> Get addr_d1 ''description'' = VStr []
   \<and> Get addr_d1 ''users'' = readBack ''users'' (flattenComputeAddressUsers (idx res_ok ''users''))
   \<and> Get addr_d1 ''users'' = VList []
   \<and> Routes_Get (api_present Succeeded) (Project cfg0) (Id' (SetId route_d0 ''route1''))
     = Inr \<lparr>Route_Name = ''route1'', Route_DestRange = ''192.168.0.0/16'',
            Route_Network = ''projects/p1/global/networks/default'',
            Route_NextHopInstance = [], Route_NextHopIp = [],
            Route_NextHopNetwork = [], Route_NextHopGateway = [],
            Route_Priority = 7, Route_Tags = []\<rparr>
   \<and> resourceComputeRouteRead (api_present Succeeded) cfg0 (SetId route_d0 ''route1'')
     = Done (None, SetId route_d0 ''route1'')"
proof -
  have u: "replaceVars (h_present Succeeded res_ok) addr_d0 cfg0 addressUrl
     = Inr ''https://www.googleapis.com/compute/v1/projects/p1/regions/r1/addresses/addr1''"
    by (simp add: h_present_def replaceVars0_def fieldOr_def Get_def addr_d0_def cfg0_def
        addressUrl_def)
  have s: "sendRequest (h_present Succeeded res_ok) cfg0 ''GET''
        ''https://www.googleapis.com/compute/v1/projects/p1/regions/r1/addresses/addr1'' None
     = Inr res_ok"
    by (simp add: h_present_def)
  have g: "Routes_Get (api_present Succeeded) (Project cfg0) (Id' (SetId route_d0 ''route1''))
     = Inr \<lparr>Route_Name = ''route1'', Route_DestRange = ''192.168.0.0/16'',
            Route_Network = ''projects/p1/global/networks/default'',
            Route_NextHopInstance = [], Route_NextHopIp = [],
            Route_NextHopNetwork = [], Route_NextHopGateway = [],
            Route_Priority = 7, Route_Tags = []\<rparr>"
    by (simp add: api_present_def SetId_def)
  have v: "Get addr_d1 ''address_type'' = VStr ''INTERNAL''" "Get addr_d1 ''description'' = VStr []"
    "Get addr_d1 ''users'' = VList []" "idx res_ok ''description'' = VNil"
    by (simp_all add: Get_def addr_d1_def idx_def res_ok_def)
  from read_writes_flattened [where h = "h_present Succeeded res_ok" and d = addr_d0
      and config = cfg0 and res = res_ok and d' = addr_d1, THEN conjunct1, rule_format,
      OF u s address_read_ok]
    read_writes_flattened [where api = "api_present Succeeded" and d = "SetId route_d0 ''route1''"
      and config = cfg0, THEN conjunct2, rule_format, OF g]
  show ?thesis
    using u s address_read_ok g v by simp
qed

lemma address_read_empty_response:
  "resourceComputeAddressRead (h_present Succeeded Map.empty) cfg0 addr_d0 = Panic"
  by (simp add: resourceComputeAddressRead_def h_present_def replaceVars0_def
      addressRead_fields_def idx_def Set_def resourceComputeAddress_Schema_def field_def Let_def
      addressUrl_def flattenComputeAddressAddress_def flattenComputeAddressAddressType_def
      flattenComputeAddressCreationTimestamp_def flattenComputeAddressDescription_def
      flattenComputeAddressName_def flattenComputeAddressNetworkTier_def
      flattenComputeAddressSubnetwork_def flattenComputeAddressUsers_def
      flattenComputeAddressRegion_def)

subsection \<open>A response without a self-link\<close>

text \<open>
  C10, as stated: with no string under \<open>selfLink\<close> in the response, Read never
  completes with a normal error return. It does for the response whose \<open>address\<close>
  is a list and which has no \<open>selfLink\<close>: the first \<open>d.Set\<close> refuses the list and
  Read returns that error, before the assertion is reached.
\<close>

theorem read_without_selfLink_returns_error:
  "res_bad ''selfLink'' = None
   \<and> resourceComputeAddressRead (h_present Succeeded res_bad) cfg0 addr_d0
     = Done (Some (Wrapped ''Error reading Address'' (SetError ''address'')), addr_d0)"
  by (simp add: resourceComputeAddressRead_def h_present_def replaceVars0_def res_bad_def
      addressRead_fields_def flattenComputeAddressAddress_def idx_def Set_def
      resourceComputeAddress_Schema_def field_def Let_def addressUrl_def)

text \<open>
  C10, amended. When the response has no string under \<open>selfLink\<close> (the key is absent,
  \<open>nil\<close> or not a string), the address Read never returns success: it does what the
  nine assignments before \<open>self_link\<close> do when one of them ends the function (a panic
  of a flattener on a value that is not a string, or the error of a refused \<open>d.Set\<close>),
  and it panics at the assertion when all nine have succeeded. Every flattener accepts
  \<open>nil\<close>.
\<close>

theorem read_without_selfLink:
  "(replaceVars h d config addressUrl = Inr url \<longrightarrow>
    sendRequest h config ''GET'' url None = Inr res \<longrightarrow>
    asString (idx res ''selfLink'') = None \<longrightarrow>
      resourceComputeAddressRead h config d
        = (case setAll d (butlast (addressRead_fields res)) of
             Panic \<Rightarrow> Panic
           | Done (Inl (err, d1)) \<Rightarrow> Done (Some err, d1)
           | Done (Inr d9) \<Rightarrow> Panic)
      \<and> (\<forall>d'. resourceComputeAddressRead h config d \<noteq> Done (None, d')))
   \<and> flattenComputeAddressAddress VNil = VNil
   \<and> flattenComputeAddressAddressType VNil = Done (VStr ''EXTERNAL'')
   \<and> flattenComputeAddressCreationTimestamp VNil = VNil
   \<and> flattenComputeAddressDescription VNil = VNil
   \<and> flattenComputeAddressName VNil = VNil
   \<and> flattenComputeAddressNetworkTier VNil = VNil
   \<and> flattenComputeAddressSubnetwork VNil = Done VNil
   \<and> flattenComputeAddressUsers VNil = VNil
   \<and> flattenComputeAddressRegion VNil = Done VNil"
proof -
  have r: "resourceComputeAddressRead h config d
        = (case setAll d (butlast (addressRead_fields res)) of
             Panic \<Rightarrow> Panic
           | Done (Inl (err, d1)) \<Rightarrow> Done (Some err, d1)
           | Done (Inr d9) \<Rightarrow> Panic)"
    if a: "replaceVars h d config addressUrl = Inr url"
      "sendRequest h config ''GET'' url None = Inr res"
      "asString (idx res ''selfLink'') = None"
  proof -
    have "addressRead_fields res = butlast (addressRead_fields res) @ [(''self_link'', Panic)]"
      using a(3) by (simp add: addressRead_fields_def)
    then have "setAll d (addressRead_fields res)
        = (case setAll d (butlast (addressRead_fields res)) of Done (Inr d9) \<Rightarrow> Panic | x \<Rightarrow> x)"
      using setAll_snoc_Panic [of d "butlast (addressRead_fields res)" "''self_link''"] by simp
    with a(1,2) show ?thesis
      by (simp add: resourceComputeAddressRead_def split: outcome.splits sum.splits prod.splits)
  qed
  have n: "resourceComputeAddressRead h config d \<noteq> Done (None, d')"
    if a: "replaceVars h d config addressUrl = Inr url"
      "sendRequest h config ''GET'' url None = Inr res"
      "asString (idx res ''selfLink'') = None" for d'
    unfolding r [OF a] by (simp split: outcome.splits sum.splits prod.splits)
  show ?thesis
    using r n
    by (simp add: flattenComputeAddressAddress_def flattenComputeAddressAddressType_def
        flattenComputeAddressCreationTimestamp_def flattenComputeAddressDescription_def
        flattenComputeAddressName_def flattenComputeAddressNetworkTier_def
        flattenComputeAddressSubnetwork_def flattenComputeAddressUsers_def
        flattenComputeAddressRegion_def)
qed

theorem read_without_selfLink_witness:
  "replaceVars (h_present Succeeded Map.empty) addr_d0 cfg0 addressUrl
     = Inr ''https://www.googleapis.com/compute/v1/projects/p1/regions/r1/addresses/addr1''
   \<and> sendRequest (h_present Succeeded Map.empty) cfg0 ''GET''
        ''https://www.googleapis.com/compute/v1/projects/p1/regions/r1/addresses/addr1'' None
     = Inr Map.empty
   \<and> asString (idx Map.empty ''selfLink'') = None
   \<and> resourceComputeAddressRead (h_present Succeeded Map.empty) cfg0 addr_d0 = Panic
   \<and> resourceComputeAddressRead (h_present Succeeded Map.empty) cfg0 addr_d0
     = (case setAll addr_d0 (butlast (addressRead_fields Map.empty)) of
          Panic \<Rightarrow> Panic
        | Done (Inl (err, d1)) \<Rightarrow> Done (Some err, d1)
        | Done (Inr d9) \<Rightarrow> Panic)"
proof -
  have u: "replaceVars (h_present Succeeded Map.empty) addr_d0 cfg0 addressUrl
     = Inr ''https://www.googleapis.com/compute/v1/projects/p1/regions/r1/addresses/addr1''"
    by (simp add: h_present_def replaceVars0_def fieldOr_def Get_def addr_d0_def cfg0_def
        addressUrl_def)
  have s: "sendRequest (h_present Succeeded Map.empty) cfg0 ''GET''
        ''https://www.googleapis.com/compute/v1/projects/p1/regions/r1/addresses/addr1'' None
     = Inr Map.empty"
    by (simp add: h_present_def)
  have n: "asString (idx Map.empty ''selfLink'') = None"
    by (simp add: idx_def)
  from read_without_selfLink [where h = "h_present Succeeded Map.empty" and d = addr_d0
      and config = cfg0 and res = Map.empty, THEN conjunct1, rule_format, OF u s n]
  show ?thesis
    using u s n address_read_empty_response by simp
qed

subsection \<open>Resolution of an import id\<close>

lemma resolve_find:
  "resolve i ps defaults =
     (case find (\<lambda>p. search p i \<noteq> None) ps of
        None \<Rightarrow> Inl (NoPatternMatched i)
      | Some p \<Rightarrow>
          (case search p i of
             None \<Rightarrow> Inl (NoPatternMatched i)
           | Some m \<Rightarrow> Inr (m @ filter (\<lambda>(k, v). k \<notin> set (map fst m)) defaults)))"
  by (induction ps) (auto split: option.splits)

lemma search_full_id:
  "search (addressImportPatterns ! 0) ''projects/p1/regions/r1/addresses/a1''
     = Some [(''project'', ''p1''), (''region'', ''r1''), (''name'', ''a1'')]"
  "search (addressImportPatterns ! 1) ''projects/p1/regions/r1/addresses/a1''
     = Some [(''project'', ''projects''), (''region'', ''p1''), (''name'', ''regions'')]"
  "search (addressImportPatterns ! 2) ''projects/p1/regions/r1/addresses/a1''
     = Some [(''name'', ''projects'')]"
  by (simp_all add: addressImportPatterns_def upt_rec)

text \<open>
  C6, as stated: the patterns are matched against the whole id. They are not: no pattern
  matches the whole of \<open>a/b\<close>, and yet the id resolves, through the bare-name pattern
  that finds \<open>a\<close> in it, and the import builds the identity \<open>p1/r1/a\<close>.
\<close>

theorem import_match_not_whole:
  "match_whole (addressImportPatterns ! 0) ''a/b'' = None
   \<and> match_whole (addressImportPatterns ! 1) ''a/b'' = None
   \<and> match_whole (addressImportPatterns ! 2) ''a/b'' = None
   \<and> length addressImportPatterns = 3
   \<and> resolve ''a/b'' addressImportPatterns (ambientDefaults cfg0)
     = Inr [(''name'', ''a''), (''project'', ''p1''), (''region'', ''r1'')]
   \<and> map_sum id (map Id')
        (resourceComputeAddressImport (h_present Succeeded Map.empty) cfg0 (SetId import_d0 ''a/b''))
     = Inr [''p1/r1/a'']"
proof -
  have r: "resolve ''a/b'' addressImportPatterns (ambientDefaults cfg0)
     = Inr [(''name'', ''a''), (''project'', ''p1''), (''region'', ''r1'')]"
    by (simp add: addressImportPatterns_def ambientDefaults_def cfg0_def upt_rec)
  have i: "Id' (SetId import_d0 ''a/b'') = ''a/b''"
    by (simp add: SetId_def)
  have "map_sum id (map Id')
        (resourceComputeAddressImport (h_present Succeeded Map.empty) cfg0 (SetId import_d0 ''a/b''))
     = Inr [''p1/r1/a'']"
    by (simp add: resourceComputeAddressImport_def parseImportId_def i r [unfolded cfg0_def]
        Set_def resourceComputeAddress_Schema_def field_def h_present_def replaceVars0_def
        fieldOr_def Get_def SetId_def import_d0_def cfg0_def Let_def)
  moreover have "match_whole (addressImportPatterns ! 0) ''a/b'' = None"
    "match_whole (addressImportPatterns ! 1) ''a/b'' = None"
    "match_whole (addressImportPatterns ! 2) ''a/b'' = None"
    "length addressImportPatterns = 3"
    by (simp_all add: match_whole_def addressImportPatterns_def upt_rec)
  ultimately show ?thesis
    using r by (intro conjI)
qed

text \<open>
  C6, amended. The resolution tries the patterns strictly in the order of their
  declaration, each pattern matching anywhere in the id, and the first pattern that
  matches wins. So the import of the id \<open>projects/p1/regions/r1/addresses/a1\<close> sets
  project \<open>p1\<close>, region \<open>r1\<close> and name \<open>a1\<close> through the fully-qualified first
  pattern, which matches the whole id, and builds the identity from this state; it does
  not take the fields of the second or of the bare-name pattern, which match the id too.
\<close>

theorem import_declaration_order:
  "resolve i ps defaults =
     (case find (\<lambda>p. search p i \<noteq> None) ps of
        None \<Rightarrow> Inl (NoPatternMatched i)
      | Some p \<Rightarrow>
          (case search p i of
             None \<Rightarrow> Inl (NoPatternMatched i)
           | Some m \<Rightarrow> Inr (m @ filter (\<lambda>(k, v). k \<notin> set (map fst m)) defaults)))
   \<and> resourceComputeAddressImport h config (SetId d ''projects/p1/regions/r1/addresses/a1'')
     = (case replaceVars h
              ((SetId d ''projects/p1/regions/r1/addresses/a1'')
                 \<lparr>vals := (vals d)(''project'' := VStr ''p1'', ''region'' := VStr ''r1'',
                                   ''name'' := VStr ''a1''),
                  isset := (isset d)(''project'' := True, ''region'' := True, ''name'' := True)\<rparr>)
              config ''{{project}}/{{region}}/{{name}}'' of
          Inl err \<Rightarrow> Inl (Wrapped ''Error constructing id'' err)
        | Inr i' \<Rightarrow>
            Inr [SetId
                  ((SetId d ''projects/p1/regions/r1/addresses/a1'')
                     \<lparr>vals := (vals d)(''project'' := VStr ''p1'', ''region'' := VStr ''r1'',
                                       ''name'' := VStr ''a1''),
                      isset := (isset d)(''project'' := True, ''region'' := True,
                                         ''name'' := True)\<rparr>)
                  i'])
   \<and> match_whole (addressImportPatterns ! 0) ''projects/p1/regions/r1/addresses/a1''
     = Some [(''project'', ''p1''), (''region'', ''r1''), (''name'', ''a1'')]
   \<and> search (addressImportPatterns ! 1) ''projects/p1/regions/r1/addresses/a1''
     = Some [(''project'', ''projects''), (''region'', ''p1''), (''name'', ''regions'')]
   \<and> search (addressImportPatterns ! 2) ''projects/p1/regions/r1/addresses/a1''
     = Some [(''name'', ''projects'')]"
proof -
  let ?D = "(SetId d ''projects/p1/regions/r1/addresses/a1'')
                 \<lparr>vals := (vals d)(''project'' := VStr ''p1'', ''region'' := VStr ''r1'',
                                   ''name'' := VStr ''a1''),
                  isset := (isset d)(''project'' := True, ''region'' := True, ''name'' := True)\<rparr>"
  have r: "resolve ''projects/p1/regions/r1/addresses/a1'' addressImportPatterns (ambientDefaults config)
     = Inr [(''project'', ''p1''), (''region'', ''r1''), (''name'', ''a1'')]"
    by (simp add: addressImportPatterns_def ambientDefaults_def upt_rec)
  have i: "Id' (SetId d ''projects/p1/regions/r1/addresses/a1'') = ''projects/p1/regions/r1/addresses/a1''"
    by (simp add: SetId_def)
  have sf: "seedFields (SetId d ''projects/p1/regions/r1/addresses/a1'')
       [(''project'', ''p1''), (''region'', ''r1''), (''name'', ''a1'')] = (None, ?D)"
    by (simp add: Set_def resourceComputeAddress_Schema_def field_def SetId_def)
  have p: "parseImportId addressImportPatterns (SetId d ''projects/p1/regions/r1/addresses/a1'') config
     = (None, ?D)"
    by (simp only: parseImportId_def i r sum.case sf)
  have m: "resourceComputeAddressImport h config (SetId d ''projects/p1/regions/r1/addresses/a1'')
     = (case replaceVars h ?D config ''{{project}}/{{region}}/{{name}}'' of
          Inl err \<Rightarrow> Inl (Wrapped ''Error constructing id'' err)
        | Inr i' \<Rightarrow> Inr [SetId ?D i'])"
    by (simp only: resourceComputeAddressImport_def p prod.case)
  have w: "match_whole (addressImportPatterns ! 0) ''projects/p1/regions/r1/addresses/a1''
     = Some [(''project'', ''p1''), (''region'', ''r1''), (''name'', ''a1'')]"
    by (simp add: match_whole_def addressImportPatterns_def upt_rec)
  show ?thesis
    by (intro conjI resolve_find m w search_full_id)
qed

subsection \<open>An import id that no pattern matches\<close>

lemma import_error_is_of_replaceVars:
  "resourceComputeAddressImport h config d = Inl e \<Longrightarrow>
     \<exists>d1 e'. replaceVars h d1 config ''{{project}}/{{region}}/{{name}}'' = Inl e'
       \<and> e = Wrapped ''Error constructing id'' e'"
  by (auto simp: resourceComputeAddressImport_def split: prod.splits sum.splits)

text \<open>
  C7. An import id that no pattern matches should end the import with the
  NoPatternMatched error. For the id \<open>/\<close>, in which no pattern finds a match, the
  resolution does return that error and \<open>parseImportId\<close> gives it back, but
  \<open>resourceComputeAddressImport\<close> does not read it: it builds the identity \<open>p1/r1/\<close>,
  with an empty name, and returns success.
\<close>

theorem import_drops_resolution_error:
  "search (addressImportPatterns ! 0) ''/'' = None
   \<and> search (addressImportPatterns ! 1) ''/'' = None
   \<and> search (addressImportPatterns ! 2) ''/'' = None
   \<and> resolve ''/'' addressImportPatterns (ambientDefaults cfg0) = Inl (NoPatternMatched ''/'')
   \<and> parseImportId addressImportPatterns import_d0 cfg0 = (Some (NoPatternMatched ''/''), import_d0)
   \<and> resourceComputeAddressImport (h_present Succeeded Map.empty) cfg0 import_d0
     = Inr [SetId import_d0 ''p1/r1/'']"
proof -
  have s: "search (addressImportPatterns ! 0) ''/'' = None"
    "search (addressImportPatterns ! 1) ''/'' = None"
    "search (addressImportPatterns ! 2) ''/'' = None"
    by (simp_all add: addressImportPatterns_def upt_rec)
  have r: "resolve ''/'' addressImportPatterns (ambientDefaults cfg0) = Inl (NoPatternMatched ''/'')"
    by (simp add: addressImportPatterns_def upt_rec)
  have i: "Id' import_d0 = ''/''"
    by (simp add: import_d0_def)
  have p: "parseImportId addressImportPatterns import_d0 cfg0 = (Some (NoPatternMatched ''/''), import_d0)"
    by (simp add: parseImportId_def i r)
  have v: "replaceVars (h_present Succeeded Map.empty) import_d0 cfg0 ''{{project}}/{{region}}/{{name}}''
     = Inr ''p1/r1/''"
    by (simp add: h_present_def replaceVars0_def fieldOr_def Get_def import_d0_def cfg0_def)
  have m: "resourceComputeAddressImport (h_present Succeeded Map.empty) cfg0 import_d0
     = Inr [SetId import_d0 ''p1/r1/'']"
    by (simp add: p v resourceComputeAddressImport_def)
  show ?thesis
    by (intro conjI s r p m)
qed

subsection \<open>Flattening an expanded value\<close>



















end
